theory Spec2Isabelle
  imports Main "HOL-Library.Product_Lexorder" "HOL-Library.List_Lexorder" "HOL-Library.Multiset"
begin

section \<open>Python values\<close>

subsection \<open>Text\<close>

text \<open>
  A Python \<open>str\<close> is a sequence of Unicode code points. Command names, the sentinel
  category and the user's input are Cyrillic, so code points are natural numbers, not bytes.
\<close>

type_synonym ustring = "nat list"

definition ustr :: "string \<Rightarrow> ustring" where
  "ustr s = map of_char s"

text \<open>\<open>str.isspace\<close> on one code point: the characters \<open>str.strip()\<close> removes.\<close>

definition py_isspace :: "nat \<Rightarrow> bool" where
  "py_isspace c \<longleftrightarrow>
     (9 \<le> c \<and> c \<le> 13) \<or> (28 \<le> c \<and> c \<le> 32) \<or> c = 133 \<or> c = 160 \<or> c = 5760
     \<or> (8192 \<le> c \<and> c \<le> 8202) \<or> c = 8232 \<or> c = 8233 \<or> c = 8239 \<or> c = 8287
     \<or> c = 12288"

definition py_strip :: "ustring \<Rightarrow> ustring" where
  "py_strip s = rev (dropWhile py_isspace (rev (dropWhile py_isspace s)))"

fun starts_with :: "ustring \<Rightarrow> ustring \<Rightarrow> bool" where
  "starts_with [] s = True"
| "starts_with (k # ks) [] = False"
| "starts_with (k # ks) (c # cs) = (k = c \<and> starts_with ks cs)"

text \<open>\<open>k in s\<close> for two strings: \<open>k\<close> occurs in \<open>s\<close> as a substring.\<close>

fun str_contains :: "ustring \<Rightarrow> ustring \<Rightarrow> bool" where
  "str_contains k [] = (k = [])"
| "str_contains k (c # cs) = (starts_with k (c # cs) \<or> str_contains k cs)"

subsection \<open>Floats\<close>

text \<open>
  A Python \<open>float\<close> is an IEEE 754 binary64 value. \<open>Fl m e\<close> is the finite value
  \<open>m * 2 ^ e\<close> with \<open>m\<close> odd (zero is \<open>Fl 0 0\<close>), so equal finite values are equal
  terms; \<open>NegZero\<close> is \<open>-0.0\<close>. Every arithmetic result is rounded to the nearest
  binary64 value, ties to even, as the hardware does.
\<close>

datatype pyfloat = Fl int int | NegZero | PosInf | NegInf | NaN

text \<open>\<open>int.bit_length\<close> for a positive integer.\<close>

function bit_length :: "int \<Rightarrow> int" where
  "bit_length n = (if n \<le> 0 then 0 else 1 + bit_length (n div 2))"
  by pat_completeness auto
termination
  by (relation "measure nat") auto

declare bit_length.simps [simp del]

text \<open>The odd-mantissa form of \<open>m * 2 ^ e\<close>.\<close>

function fl_normal :: "int \<Rightarrow> int \<Rightarrow> pyfloat" where
  "fl_normal m e =
     (if m = 0 then Fl 0 0
      else if even m then fl_normal (m div 2) (e + 1)
      else Fl m e)"
  by pat_completeness auto
termination
  by (relation "measure (\<lambda>(m, e). nat \<bar>m\<bar>)") auto

declare fl_normal.simps [simp del]

text \<open>\<open>n / d\<close> rounded to the nearest integer, ties to even (\<open>0 \<le> n\<close>, \<open>0 < d\<close>).\<close>

definition half_even :: "int \<Rightarrow> int \<Rightarrow> int" where
  "half_even n d =
     (let q = n div d; r = n mod d
      in if 2 * r < d then q
         else if d < 2 * r then q + 1
         else if even q then q else q + 1)"

text \<open>\<open>2 ^ k \<le> n / d\<close>, on integers.\<close>

definition ratio_ge_pow2 :: "int \<Rightarrow> int \<Rightarrow> int \<Rightarrow> bool" where
  "ratio_ge_pow2 n d k = (if 0 \<le> k then d * 2 ^ nat k \<le> n else d \<le> n * 2 ^ nat (- k))"

text \<open>The binary exponent \<open>\<lfloor>log\<^sub>2 (n / d)\<rfloor>\<close> of a positive ratio.\<close>

definition ratio_log2 :: "int \<Rightarrow> int \<Rightarrow> int" where
  "ratio_log2 n d =
     (let k = bit_length n - bit_length d
      in if ratio_ge_pow2 n d k then k else k - 1)"

text \<open>
  The positive ratio \<open>n / d\<close> rounded to binary64: a 53-bit mantissa \<open>q\<close> and an exponent
  \<open>e\<close> that is at least \<open>-1074\<close> (below the normal range the spacing stays \<open>2 ^ -1074\<close>:
  gradual underflow). \<open>None\<close> is overflow: the rounded value is \<open>2 ^ 1024\<close> or more.
\<close>

definition round_ratio :: "int \<Rightarrow> int \<Rightarrow> (int \<times> int) option" where
  "round_ratio n d =
     (let e = max (ratio_log2 n d - 52) (- 1074);
          q = (if 0 \<le> e then half_even n (d * 2 ^ nat e)
               else half_even (n * 2 ^ nat (- e)) d)
      in if 1024 < e + bit_length q then None else Some (q, e))"

text \<open>The ratio \<open>n / d\<close> (\<open>0 < d\<close>) as a float: overflow gives an infinity.\<close>

definition round64 :: "int \<Rightarrow> int \<Rightarrow> pyfloat" where
  "round64 n d =
     (if n = 0 then Fl 0 0
      else if 0 < n then
        (case round_ratio n d of None \<Rightarrow> PosInf | Some (q, e) \<Rightarrow> fl_normal q e)
      else
        (case round_ratio (- n) d of None \<Rightarrow> NegInf
         | Some (q, e) \<Rightarrow> if q = 0 then NegZero else fl_normal (- q) e))"

text \<open>The exact value \<open>m * 2 ^ e\<close>, as a ratio of integers, rounded.\<close>

definition round_dyadic :: "int \<Rightarrow> int \<Rightarrow> pyfloat" where
  "round_dyadic m e =
     (if 0 \<le> e then round64 (m * 2 ^ nat e) 1 else round64 m (2 ^ nat (- e)))"

text \<open>Float addition: the exact sum of two finite values, rounded once.\<close>

fun fadd :: "pyfloat \<Rightarrow> pyfloat \<Rightarrow> pyfloat" where
  "fadd NaN y = NaN"
| "fadd x NaN = NaN"
| "fadd PosInf NegInf = NaN"
| "fadd NegInf PosInf = NaN"
| "fadd PosInf y = PosInf"
| "fadd x PosInf = PosInf"
| "fadd NegInf y = NegInf"
| "fadd x NegInf = NegInf"
| "fadd NegZero NegZero = NegZero"
| "fadd NegZero (Fl m e) = round_dyadic m e"
| "fadd (Fl m e) NegZero = round_dyadic m e"
| "fadd (Fl m1 e1) (Fl m2 e2) =
     (let e = min e1 e2
      in round_dyadic (m1 * 2 ^ nat (e1 - e) + m2 * 2 ^ nat (e2 - e)) e)"

fun fneg :: "pyfloat \<Rightarrow> pyfloat" where
  "fneg (Fl m e) = (if m = 0 then NegZero else Fl (- m) e)"
| "fneg NegZero = Fl 0 0"
| "fneg PosInf = NegInf"
| "fneg NegInf = PosInf"
| "fneg NaN = NaN"

definition fsub :: "pyfloat \<Rightarrow> pyfloat \<Rightarrow> pyfloat" where
  "fsub x y = fadd x (fneg y)"

fun fabs :: "pyfloat \<Rightarrow> pyfloat" where
  "fabs (Fl m e) = Fl \<bar>m\<bar> e"
| "fabs NegZero = Fl 0 0"
| "fabs PosInf = PosInf"
| "fabs NegInf = PosInf"
| "fabs NaN = NaN"

text \<open>\<open>x < 0\<close> and \<open>x > 0\<close>; both are false for NaN and for either zero.\<close>

fun fneg_sign :: "pyfloat \<Rightarrow> bool" where
  "fneg_sign (Fl m e) = (m < 0)"
| "fneg_sign NegInf = True"
| "fneg_sign x = False"

fun fpos_sign :: "pyfloat \<Rightarrow> bool" where
  "fpos_sign (Fl m e) = (0 < m)"
| "fpos_sign PosInf = True"
| "fpos_sign x = False"

subsection \<open>JSON-shaped values and exceptions\<close>

text \<open>
  The values \<open>json.load\<close> builds and \<open>json.dump\<close> accepts. A \<open>dict\<close> is the list of its
  items in insertion order.
\<close>

datatype pyval =
    PNone
  | PBool bool
  | PInt int
  | PFloat pyfloat
  | PStr ustring
  | PList "pyval list"
  | PDict "(ustring \<times> pyval) list"

datatype pyerr =
    TypeError | ValueError | KeyError | AttributeError | OverflowError
  | EOFError | OSError | UnicodeDecodeError | UnicodeEncodeError

text \<open>\<open>key in container\<close>, for a string key.\<close>

fun py_contains :: "ustring \<Rightarrow> pyval \<Rightarrow> pyerr + bool" where
  "py_contains k (PDict d) = Inr (map_of d k \<noteq> None)"
| "py_contains k (PList xs) = Inr (PStr k \<in> set xs)"
| "py_contains k (PStr s) = Inr (str_contains k s)"
| "py_contains k v = Inl TypeError"

text \<open>\<open>container[key]\<close>, for a string key: only a dict can be indexed by a string.\<close>

fun py_getitem :: "pyval \<Rightarrow> ustring \<Rightarrow> pyerr + pyval" where
  "py_getitem (PDict d) k = (case map_of d k of None \<Rightarrow> Inl KeyError | Some v \<Rightarrow> Inr v)"
| "py_getitem v k = Inl TypeError"

fun is_list :: "pyval \<Rightarrow> bool" where
  "is_list (PList xs) = True"
| "is_list v = False"

fun is_dict :: "pyval \<Rightarrow> bool" where
  "is_dict (PDict d) = True"
| "is_dict v = False"

subsection \<open>The interpreter beyond the model\<close>

text \<open>
  Three builtins depend on Unicode tables or on the shortest-digits printing of floats. The
  model computes them where the answer needs neither, and reads the rest from an
  \<open>interp\<close>: every theorem holds for every such interpreter.
\<close>

record interp =
  uni_digit :: "nat \<Rightarrow> nat option"
  uni_lower :: "ustring \<Rightarrow> ustring"
  uni_repr :: "pyval \<Rightarrow> ustring"

text \<open>
  \<open>uni_digit\<close>: the value of a decimal digit outside ASCII (category Nd), \<open>None\<close> for any
  other character. \<open>uni_lower\<close>: \<open>str.lower()\<close> of a string with a character outside Basic
  Latin and the Cyrillic block. \<open>uni_repr\<close>: \<open>str()\<close> of a float, a list or a dict.
\<close>

subsection \<open>Digits and decimal text\<close>

definition is_digit :: "nat \<Rightarrow> bool" where
  "is_digit c \<longleftrightarrow> 48 \<le> c \<and> c \<le> 57"

text \<open>The decimal digits \<open>\d\<close> and \<open>int()\<close> accept: ASCII or any other script's.\<close>

definition digit_of :: "interp \<Rightarrow> nat \<Rightarrow> nat option" where
  "digit_of env c =
     (if is_digit c then Some (c - 48) else if c < 128 then None else uni_digit env c)"

definition digits_val :: "ustring \<Rightarrow> int" where
  "digits_val ds = foldl (\<lambda>acc c. 10 * acc + int (c - 48)) 0 ds"

definition digit_char :: "int \<Rightarrow> char" where
  "digit_char d = ''0123456789'' ! nat d"

text \<open>The decimal digits of a non-negative integer.\<close>

function dec_digits :: "int \<Rightarrow> string" where
  "dec_digits n =
     (if n < 10 then [digit_char n] else dec_digits (n div 10) @ [digit_char (n mod 10)])"
  by pat_completeness auto
termination
  by (relation "measure nat") auto

declare dec_digits.simps [simp del]

definition show_int :: "int \<Rightarrow> string" where
  "show_int n = (if n < 0 then CHR ''-'' # dec_digits (- n) else dec_digits n)"

subsection \<open>Case folding\<close>

text \<open>
  \<open>str.lower()\<close> is one code point to one code point on Basic Latin and on the Cyrillic
  letters the program's command names use (U+0400 to U+045F, and the letter ghe with upturn).
\<close>

definition basic_cp :: "nat \<Rightarrow> bool" where
  "basic_cp c \<longleftrightarrow> c < 128 \<or> (1024 \<le> c \<and> c \<le> 1119) \<or> c = 1168 \<or> c = 1169"

definition lower_cp :: "nat \<Rightarrow> nat" where
  "lower_cp c =
     (if 65 \<le> c \<and> c \<le> 90 then c + 32
      else if 1024 \<le> c \<and> c \<le> 1039 then c + 80
      else if 1040 \<le> c \<and> c \<le> 1071 then c + 32
      else if c = 1168 then 1169
      else c)"

definition py_lower :: "interp \<Rightarrow> ustring \<Rightarrow> ustring" where
  "py_lower env s = (if list_all basic_cp s then map lower_cp s else uni_lower env s)"

subsection \<open>\<open>str()\<close> and \<open>float()\<close>\<close>

definition py_str :: "interp \<Rightarrow> pyval \<Rightarrow> ustring" where
  "py_str env v =
     (case v of
        PStr s \<Rightarrow> s
      | PNone \<Rightarrow> ustr ''None''
      | PBool b \<Rightarrow> (if b then ustr ''True'' else ustr ''False'')
      | PInt n \<Rightarrow> ustr (show_int n)
      | _ \<Rightarrow> uni_repr env v)"

text \<open>
  \<open>float(s)\<close> for a string first maps every non-ASCII space to a blank, every non-ASCII
  decimal digit to its ASCII digit and every other non-ASCII character to \<open>?\<close>, then drops the
  blanks of C's \<open>isspace\<close> at both ends.
\<close>

definition to_ascii :: "interp \<Rightarrow> nat \<Rightarrow> nat" where
  "to_ascii env c =
     (if c < 128 then c
      else if py_isspace c then 32
      else (case uni_digit env c of Some d \<Rightarrow> 48 + d | None \<Rightarrow> 63))"

definition c_isspace :: "nat \<Rightarrow> bool" where
  "c_isspace c \<longleftrightarrow> (9 \<le> c \<and> c \<le> 13) \<or> c = 32"

definition c_strip :: "ustring \<Rightarrow> ustring" where
  "c_strip s = rev (dropWhile c_isspace (rev (dropWhile c_isspace s)))"

text \<open>
  An underscore may stand only between two digits; \<open>prev\<close> is the character before.
\<close>

fun underscores_ok :: "nat \<Rightarrow> ustring \<Rightarrow> bool" where
  "underscores_ok prev [] = (prev \<noteq> 95)"
| "underscores_ok prev (c # cs) =
     (if c = 95 then is_digit prev \<and> underscores_ok c cs
      else if prev = 95 then is_digit c \<and> underscores_ok c cs
      else underscores_ok c cs)"

text \<open>An optional sign: whether it is \<open>-\<close>, and the rest.\<close>

fun split_sign :: "ustring \<Rightarrow> bool \<times> ustring" where
  "split_sign [] = (False, [])"
| "split_sign (c # cs) =
     (if c = 45 then (True, cs) else if c = 43 then (False, cs) else (False, c # cs))"

text \<open>The exponent part: empty, or \<open>e\<close> or \<open>E\<close>, an optional sign and at least one digit.\<close>

definition exponent_of :: "ustring \<Rightarrow> int option" where
  "exponent_of s =
     (case s of
        [] \<Rightarrow> Some 0
      | c # cs \<Rightarrow>
          if c = 101 \<or> c = 69 then
            (case split_sign cs of
               (neg, ds) \<Rightarrow>
                 if ds \<noteq> [] \<and> list_all is_digit ds
                 then Some (if neg then - digits_val ds else digits_val ds)
                 else None)
          else None)"

text \<open>
  The decimal \<open>digits * 10 ^ x\<close> with its sign, correctly rounded (a negative zero keeps
  its sign).
\<close>

definition decimal_float :: "bool \<Rightarrow> int \<Rightarrow> int \<Rightarrow> pyfloat" where
  "decimal_float neg ds x =
     (if ds = 0 then (if neg then NegZero else Fl 0 0)
      else if 0 \<le> x then round64 ((if neg then - ds else ds) * 10 ^ nat x) 1
      else round64 (if neg then - ds else ds) (10 ^ nat (- x)))"

text \<open>
  The grammar of a float literal, after the sign: \<open>inf\<close>, \<open>infinity\<close> or \<open>nan\<close> in any
  letter case, or digits with an optional point and an optional exponent, at least one
  digit before or after the point.
\<close>

definition parse_number :: "ustring \<Rightarrow> pyfloat option" where
  "parse_number s =
     (case split_sign s of
        (neg, r) \<Rightarrow>
          if map lower_cp r = ustr ''inf'' \<or> map lower_cp r = ustr ''infinity''
          then Some (if neg then NegInf else PosInf)
          else if map lower_cp r = ustr ''nan'' then Some NaN
          else
            (let ip = takeWhile is_digit r;
                 r1 = dropWhile is_digit r;
                 fp = (case r1 of [] \<Rightarrow> []
                       | c # t \<Rightarrow> if c = 46 then takeWhile is_digit t else []);
                 r2 = (case r1 of [] \<Rightarrow> []
                       | c # t \<Rightarrow> if c = 46 then dropWhile is_digit t else r1)
             in if ip = [] \<and> fp = [] then None
                else (case exponent_of r2 of
                        None \<Rightarrow> None
                      | Some x \<Rightarrow>
                          Some (decimal_float neg (digits_val (ip @ fp)) (x - int (length fp))))))"

definition float_of_str :: "interp \<Rightarrow> ustring \<Rightarrow> pyfloat option" where
  "float_of_str env s =
     (let t = c_strip (map (to_ascii env) s)
      in if underscores_ok 0 t then parse_number (filter (\<lambda>c. c \<noteq> 95) t) else None)"

text \<open>\<open>float(n)\<close> for an integer rounds to nearest and raises when the result overflows.\<close>

definition float_of_int :: "int \<Rightarrow> pyerr + pyfloat" where
  "float_of_int n =
     (case round64 n 1 of
        PosInf \<Rightarrow> Inl OverflowError
      | NegInf \<Rightarrow> Inl OverflowError
      | x \<Rightarrow> Inr x)"

definition py_float :: "interp \<Rightarrow> pyval \<Rightarrow> pyerr + pyfloat" where
  "py_float env v =
     (case v of
        PFloat x \<Rightarrow> Inr x
      | PInt n \<Rightarrow> float_of_int n
      | PBool b \<Rightarrow> Inr (if b then Fl 1 0 else Fl 0 0)
      | PStr s \<Rightarrow> (case float_of_str env s of None \<Rightarrow> Inl ValueError | Some x \<Rightarrow> Inr x)
      | _ \<Rightarrow> Inl TypeError)"

text \<open>
  The format \<open>:.2f\<close>: the exact binary value times 100, rounded to the nearest integer
  (ties to even), printed with two decimals.
\<close>

definition fmt2 :: "pyfloat \<Rightarrow> string" where
  "fmt2 x =
     (case x of
        Fl m e \<Rightarrow>
          (let c = (if 0 \<le> e then half_even (\<bar>m\<bar> * 100 * 2 ^ nat e) 1
                    else half_even (\<bar>m\<bar> * 100) (2 ^ nat (- e)))
           in (if m < 0 then ''-'' else []) @ dec_digits (c div 100) @ ''.''
                @ [digit_char (c mod 100 div 10), digit_char (c mod 10)])
      | NegZero \<Rightarrow> ''-0.00''
      | PosInf \<Rightarrow> ''inf''
      | NegInf \<Rightarrow> ''-inf''
      | NaN \<Rightarrow> ''nan'')"

text \<open>\<open>d.get(key, default)\<close>: only a dict has the method.\<close>

fun py_get :: "pyval \<Rightarrow> ustring \<Rightarrow> pyval \<Rightarrow> pyerr + pyval" where
  "py_get (PDict d) k dflt = Inr (case map_of d k of None \<Rightarrow> dflt | Some v \<Rightarrow> v)"
| "py_get v k dflt = Inl AttributeError"

section \<open>Storage\<close>

text \<open>
  The data file, as \<open>load_state\<close> can find it: absent; present but failing in \<open>open\<close> or
  \<open>read\<close> with an \<open>OSError\<close>; holding bytes that are not UTF-8; holding text that is not
  JSON; or holding a JSON document, given by the value \<open>json.load\<close> returns for it.
\<close>

datatype datafile = Missing | Unreadable | Undecodable | Malformed | Doc pyval

definition default_state :: pyval where
  "default_state = PDict [(ustr ''budget'', PFloat (Fl 0 0)), (ustr ''expenses'', PList [])]"

text \<open>
  The structure check of \<open>load_state\<close>, with Python's left-to-right \<open>or\<close>: each test runs
  only when the ones before it were false, and a test that raises ends the function.
\<close>

definition check_state :: "pyval \<Rightarrow> pyerr + pyval" where
  "check_state state =
     (case py_contains (ustr ''budget'') state of
        Inl err \<Rightarrow> Inl err
      | Inr False \<Rightarrow> Inr default_state
      | Inr True \<Rightarrow>
          (case py_contains (ustr ''expenses'') state of
             Inl err \<Rightarrow> Inl err
           | Inr False \<Rightarrow> Inr default_state
           | Inr True \<Rightarrow>
               (case py_getitem state (ustr ''expenses'') of
                  Inl err \<Rightarrow> Inl err
                | Inr v \<Rightarrow> if is_list v then Inr state else Inr default_state)))"

text \<open>
  \<open>load_state\<close> catches \<open>json.JSONDecodeError\<close> and \<open>OSError\<close> only; a
  \<open>UnicodeDecodeError\<close> from reading, or a \<open>TypeError\<close> from the structure check,
  leaves the function.
\<close>

fun load_state :: "datafile \<Rightarrow> pyerr + pyval" where
  "load_state Missing = Inr default_state"
| "load_state Unreadable = Inr default_state"
| "load_state Malformed = Inr default_state"
| "load_state Undecodable = Inl UnicodeDecodeError"
| "load_state (Doc state) = check_state state"

section \<open>Domain operations\<close>

subsection \<open>Dates\<close>

text \<open>A \<open>datetime.date\<close>: year, month, day, compared in that order.\<close>

type_synonym pydate = "nat \<times> nat \<times> nat"

definition leap_year :: "nat \<Rightarrow> bool" where
  "leap_year y \<longleftrightarrow> y mod 4 = 0 \<and> (y mod 100 \<noteq> 0 \<or> y mod 400 = 0)"

definition days_in_month :: "nat \<Rightarrow> nat \<Rightarrow> nat" where
  "days_in_month y m =
     (if m = 2 then (if leap_year y then 29 else 28)
      else if m = 4 \<or> m = 6 \<or> m = 9 \<or> m = 11 then 30
      else 31)"

definition valid_date :: "pydate \<Rightarrow> bool" where
  "valid_date dt =
     (case dt of
        (y, m, d) \<Rightarrow> 1 \<le> y \<and> y \<le> 9999 \<and> 1 \<le> m \<and> m \<le> 12 \<and> 1 \<le> d \<and> d \<le> days_in_month y m)"

text \<open>
  \<open>datetime.strptime(s, "%Y-%m-%d")\<close> matches \<open>s\<close> against the regular expression
  \<open>(\d\d\d\d)-(1[0-2]|0[1-9]|[1-9])-(3[01]|[12]\d|0[1-9]|[1-9]| [1-9])\<close>, requires the
  match to cover all of \<open>s\<close>, and builds the date, which fails for a day the month does not
  have and for the year 0. \<open>None\<close> is \<open>ValueError\<close>.
\<close>

definition year_of :: "interp \<Rightarrow> ustring \<Rightarrow> (nat \<times> ustring) option" where
  "year_of env s =
     (case s of
        a # b # c # d # r \<Rightarrow>
          (case digit_of env a of None \<Rightarrow> None | Some w \<Rightarrow>
          (case digit_of env b of None \<Rightarrow> None | Some x \<Rightarrow>
          (case digit_of env c of None \<Rightarrow> None | Some y \<Rightarrow>
          (case digit_of env d of None \<Rightarrow> None | Some z \<Rightarrow>
             Some (1000 * w + 100 * x + 10 * y + z, r)))))
      | _ \<Rightarrow> None)"

text \<open>The month and the \<open>-\<close> after it: one digit, or two when a \<open>-\<close> follows them.\<close>

definition month_of :: "ustring \<Rightarrow> (nat \<times> ustring) option" where
  "month_of s =
     (case s of
        a # b # r \<Rightarrow>
          if b = 45 then (if 49 \<le> a \<and> a \<le> 57 then Some (a - 48, r) else None)
          else
            (case r of
               [] \<Rightarrow> None
             | c # t \<Rightarrow>
                 if c = 45 \<and> ((a = 49 \<and> 48 \<le> b \<and> b \<le> 50) \<or> (a = 48 \<and> 49 \<le> b \<and> b \<le> 57))
                 then Some (10 * (a - 48) + (b - 48), t)
                 else None)
      | _ \<Rightarrow> None)"

text \<open>The day, which must end the string.\<close>

definition day_of :: "interp \<Rightarrow> ustring \<Rightarrow> nat option" where
  "day_of env s =
     (case s of
        [a] \<Rightarrow> if 49 \<le> a \<and> a \<le> 57 then Some (a - 48) else None
      | [a, b] \<Rightarrow>
          if a = 51 \<and> (b = 48 \<or> b = 49) then Some (30 + (b - 48))
          else if a = 49 \<or> a = 50 then
            (case digit_of env b of None \<Rightarrow> None | Some v \<Rightarrow> Some (10 * (a - 48) + v))
          else if (a = 48 \<or> a = 32) \<and> 49 \<le> b \<and> b \<le> 57 then Some (b - 48)
          else None
      | _ \<Rightarrow> None)"

definition strptime :: "interp \<Rightarrow> ustring \<Rightarrow> pydate option" where
  "strptime env s =
     (case year_of env s of
        None \<Rightarrow> None
      | Some (y, r) \<Rightarrow>
          (case r of
             [] \<Rightarrow> None
           | c # r1 \<Rightarrow>
               if c = 45 then
                 (case month_of r1 of
                    None \<Rightarrow> None
                  | Some (m, r2) \<Rightarrow>
                      (case day_of env r2 of
                         None \<Rightarrow> None
                       | Some d \<Rightarrow> if valid_date (y, m, d) then Some (y, m, d) else None))
               else None))"

text \<open>\<open>date.isoformat()\<close>: \<open>YYYY-MM-DD\<close>, zero padded.\<close>

definition isoformat :: "pydate \<Rightarrow> ustring" where
  "isoformat dt =
     (case dt of
        (y, m, d) \<Rightarrow>
          [48 + y div 1000, 48 + y div 100 mod 10, 48 + y div 10 mod 10, 48 + y mod 10, 45,
           48 + m div 10, 48 + m mod 10, 45, 48 + d div 10, 48 + d mod 10])"

subsection \<open>Categories and totals\<close>

text \<open>The sentinel category, the Ukrainian for "no category", as code points.\<close>

definition sentinel :: ustring where
  "sentinel = [1041, 1077, 1079, 32, 1082, 1072, 1090, 1077, 1075, 1086, 1088, 1110, 1111]"

definition normalize_category :: "ustring \<Rightarrow> ustring" where
  "normalize_category cat = (let c = py_strip cat in if c = [] then sentinel else c)"

text \<open>\<open>float(e.get("amount", 0))\<close>.\<close>

definition amount_of :: "interp \<Rightarrow> pyval \<Rightarrow> pyerr + pyfloat" where
  "amount_of env e =
     (case py_get e (ustr ''amount'') (PInt 0) of
        Inl err \<Rightarrow> Inl err
      | Inr v \<Rightarrow> py_float env v)"

text \<open>
  A running sum is the integer \<open>0\<close> before the first item and a float after it; adding a
  float to the integer \<open>0\<close> converts the \<open>0\<close> first.
\<close>

fun num_float :: "pyval \<Rightarrow> pyfloat" where
  "num_float (PFloat x) = x"
| "num_float v = Fl 0 0"

text \<open>
  \<open>sum(float(e.get("amount", 0)) for e in expenses)\<close>: the items are converted and added
  from left to right, and the first conversion that raises ends the sum.
\<close>

fun sum_amounts :: "interp \<Rightarrow> pyval \<Rightarrow> pyval list \<Rightarrow> pyerr + pyval" where
  "sum_amounts env acc [] = Inr acc"
| "sum_amounts env acc (e # es) =
     (case amount_of env e of
        Inl err \<Rightarrow> Inl err
      | Inr a \<Rightarrow> sum_amounts env (PFloat (fadd (num_float acc) a)) es)"

definition total_expenses :: "interp \<Rightarrow> pyval list \<Rightarrow> pyerr + pyval" where
  "total_expenses env expenses = sum_amounts env (PInt 0) expenses"

definition calculate_balance :: "interp \<Rightarrow> pyfloat \<Rightarrow> pyval list \<Rightarrow> pyerr + pyfloat" where
  "calculate_balance env budget expenses =
     (case total_expenses env expenses of
        Inl err \<Rightarrow> Inl err
      | Inr t \<Rightarrow> Inr (fsub budget (num_float t)))"

subsection \<open>Filters\<close>

text \<open>A list comprehension or loop whose test can raise: the first exception ends it.\<close>

fun filter_err :: "('a \<Rightarrow> pyerr + bool) \<Rightarrow> 'a list \<Rightarrow> pyerr + 'a list" where
  "filter_err p [] = Inr []"
| "filter_err p (x # xs) =
     (case p x of
        Inl err \<Rightarrow> Inl err
      | Inr b \<Rightarrow>
          (case filter_err p xs of
             Inl err \<Rightarrow> Inl err
           | Inr ys \<Rightarrow> Inr (if b then x # ys else ys)))"

definition filter_by_date :: "interp \<Rightarrow> pyval list \<Rightarrow> ustring \<Rightarrow> pyerr + pyval list" where
  "filter_by_date env expenses target_date =
     filter_err
       (\<lambda>e. case py_get e (ustr ''date'') PNone of
               Inl err \<Rightarrow> Inl err
             | Inr v \<Rightarrow> Inr (py_str env v = target_date))
       expenses"

text \<open>
  The test of the loop in \<open>filter_by_period\<close>: \<open>e.get\<close> is outside what the \<open>try\<close> can
  recover (it raises \<open>AttributeError\<close>, the handler catches \<open>ValueError\<close>); a date that does
  not parse is skipped.
\<close>

definition in_period :: "interp \<Rightarrow> pydate \<Rightarrow> pydate \<Rightarrow> pyval \<Rightarrow> pyerr + bool" where
  "in_period env start_d end_d e =
     (case py_get e (ustr ''date'') PNone of
        Inl err \<Rightarrow> Inl err
      | Inr v \<Rightarrow>
          (case strptime env (py_str env v) of
             None \<Rightarrow> Inr False
           | Some d \<Rightarrow> Inr (start_d \<le> d \<and> d \<le> end_d)))"

definition filter_by_period ::
  "interp \<Rightarrow> pyval list \<Rightarrow> ustring \<Rightarrow> ustring \<Rightarrow> pyerr + pyval list" where
  "filter_by_period env expenses start end =
     (case strptime env start of
        None \<Rightarrow> Inl ValueError
      | Some start_d \<Rightarrow>
          (case strptime env end of
             None \<Rightarrow> Inl ValueError
           | Some end_d \<Rightarrow>
               if end_d < start_d then filter_err (in_period env end_d start_d) expenses
               else filter_err (in_period env start_d end_d) expenses))"

definition filter_by_category :: "interp \<Rightarrow> pyval list \<Rightarrow> ustring \<Rightarrow> pyerr + pyval list" where
  "filter_by_category env expenses category =
     (let category_norm = py_lower env (py_strip category)
      in filter_err
           (\<lambda>e. case py_get e (ustr ''category'') (PStr []) of
                   Inl err \<Rightarrow> Inl err
                 | Inr v \<Rightarrow> Inr (py_lower env (py_strip (py_str env v)) = category_norm))
           expenses)"

subsection \<open>The report\<close>

text \<open>\<open>d[k] = v\<close> on a dict kept in insertion order: a new key goes to the end.\<close>

fun dict_set :: "('k \<times> 'v) list \<Rightarrow> 'k \<Rightarrow> 'v \<Rightarrow> ('k \<times> 'v) list" where
  "dict_set [] k v = [(k, v)]"
| "dict_set (p # ps) k v = (if fst p = k then (k, v) # ps else p # dict_set ps k v)"

text \<open>The category under which the report counts an expense.\<close>

definition label_of :: "interp \<Rightarrow> pyval \<Rightarrow> pyerr + ustring" where
  "label_of env e =
     (case py_get e (ustr ''category'') (PStr sentinel) of
        Inl err \<Rightarrow> Inl err
      | Inr c \<Rightarrow> Inr (py_strip (py_str env c)))"

fun report_from ::
  "interp \<Rightarrow> (ustring \<times> pyfloat) list \<Rightarrow> pyval list \<Rightarrow> pyerr + (ustring \<times> pyfloat) list" where
  "report_from env report [] = Inr report"
| "report_from env report (e # es) =
     (case label_of env e of
        Inl err \<Rightarrow> Inl err
      | Inr cat \<Rightarrow>
          (case amount_of env e of
             Inl err \<Rightarrow> Inl err
           | Inr amount \<Rightarrow>
               report_from env
                 (dict_set report cat
                    (fadd (case map_of report cat of None \<Rightarrow> Fl 0 0 | Some x \<Rightarrow> x) amount))
                 es))"

definition report_by_categories ::
  "interp \<Rightarrow> pyval list \<Rightarrow> pyerr + (ustring \<times> pyfloat) list" where
  "report_by_categories env expenses = report_from env [] expenses"

section \<open>The console session\<close>

subsection \<open>The world\<close>

text \<open>
  What the program reads and writes: the lines still to come on standard input, what has
  been printed, the data file, and whether the file can be opened for writing. One
  constructor of \<open>out\<close> stands for one \<open>print\<close> or prompt of the source and carries the
  values formatted into it; fixed wording and column padding are left out.
\<close>

datatype prompt =
    AskCommand | AskBudget | AskAmount | AskCategory | AskDate | AskComment
  | AskFilterDate | AskStart | AskEnd | AskFilterCategory

datatype out =
    Prompt prompt
  | ErrNegative
  | ErrNotNumber
  | ErrBadDate
  | Help
  | BudgetSet string
  | ExpenseAdded
  | OverBudgetWarning string
  | RemainingBudget string
  | NoExpenses
  | TableTitle
  | Rule72
  | TableColumns
  | TableRow nat ustring ustring string ustring
  | TableTotal string
  | ErrEmptyCategory
  | BalanceBudget string
  | BalanceSpent string
  | BalanceLeft string
  | BalanceOver string
  | NoReport
  | ReportTitle
  | Rule40
  | ReportRow ustring string
  | ReportTotal string
  | Goodbye
  | ErrUnknownCommand

record world =
  stdin :: "ustring list"
  stdout :: "out list"
  disk :: datafile
  writable :: bool

text \<open>A call either raises, or returns a value; both leave a world behind.\<close>

datatype 'a io = Raised pyerr world | Returned 'a world

definition bind :: "'a io \<Rightarrow> ('a \<Rightarrow> world \<Rightarrow> 'b io) \<Rightarrow> 'b io" where
  "bind m f = (case m of Raised err w \<Rightarrow> Raised err w | Returned x w \<Rightarrow> f x w)"

definition lift :: "pyerr + 'a \<Rightarrow> world \<Rightarrow> 'a io" where
  "lift r w = (case r of Inl err \<Rightarrow> Raised err w | Inr x \<Rightarrow> Returned x w)"

definition emit :: "out \<Rightarrow> world \<Rightarrow> world" where
  "emit x w = w\<lparr>stdout := stdout w @ [x]\<rparr>"

text \<open>\<open>input(prompt)\<close> prints the prompt and raises \<open>EOFError\<close> at the end of input.\<close>

definition py_input :: "prompt \<Rightarrow> world \<Rightarrow> ustring io" where
  "py_input p w =
     (case stdin w of
        [] \<Rightarrow> Raised EOFError (emit (Prompt p) w)
      | l # ls \<Rightarrow> Returned l (emit (Prompt p) (w\<lparr>stdin := ls\<rparr>)))"

subsection \<open>Saving\<close>

text \<open>
  \<open>save_state\<close> opens the file for writing, which truncates it, and dumps the state with
  \<open>ensure_ascii=False\<close> through a UTF-8 encoder: a lone surrogate in any string cannot be
  encoded, and the exception leaves the text written so far, which is not a JSON document.
  For every other state the file then holds a document that parses back to the state.
\<close>

definition str_encodable :: "ustring \<Rightarrow> bool" where
  "str_encodable s = list_all (\<lambda>c. c < 55296 \<or> 57343 < c) s"

fun encodable :: "pyval \<Rightarrow> bool" where
  "encodable (PStr s) = str_encodable s"
| "encodable (PList xs) = list_all encodable xs"
| "encodable (PDict d) = list_all (\<lambda>kv. str_encodable (fst kv) \<and> encodable (snd kv)) d"
| "encodable v = True"

definition save_state :: "pyval \<Rightarrow> world \<Rightarrow> unit io" where
  "save_state state w =
     (if \<not> writable w then Raised OSError w
      else if encodable state then Returned () (w\<lparr>disk := Doc state\<rparr>)
      else Raised UnicodeEncodeError (w\<lparr>disk := Malformed\<rparr>))"

subsection \<open>Input parsers\<close>

definition replace_comma :: "ustring \<Rightarrow> ustring" where
  "replace_comma s = map (\<lambda>c. if c = 44 then 46 else c) s"

function parse_float :: "interp \<Rightarrow> prompt \<Rightarrow> world \<Rightarrow> pyfloat io" where
  "parse_float env p w =
     (case py_input p w of
        Raised err w1 \<Rightarrow> Raised err w1
      | Returned line w1 \<Rightarrow>
          (case float_of_str env (replace_comma (py_strip line)) of
             None \<Rightarrow> parse_float env p (emit ErrNotNumber w1)
           | Some v \<Rightarrow>
               if fneg_sign v then parse_float env p (emit ErrNegative w1)
               else Returned v w1))"
  by pat_completeness auto
termination
  by (relation "measure (\<lambda>(env, p, w). length (stdin w))")
    (auto simp: py_input_def emit_def split: list.splits)

declare parse_float.simps [simp del]

function parse_date :: "interp \<Rightarrow> prompt \<Rightarrow> world \<Rightarrow> ustring io" where
  "parse_date env p w =
     (case py_input p w of
        Raised err w1 \<Rightarrow> Raised err w1
      | Returned line w1 \<Rightarrow>
          (case strptime env (py_strip line) of
             None \<Rightarrow> parse_date env p (emit ErrBadDate w1)
           | Some dt \<Rightarrow> Returned (isoformat dt) w1))"
  by pat_completeness auto
termination
  by (relation "measure (\<lambda>(env, p, w). length (stdin w))")
    (auto simp: py_input_def emit_def split: list.splits)

declare parse_date.simps [simp del]

subsection \<open>Truth and iteration\<close>

text \<open>\<open>not x\<close> is true for \<open>None\<close>, \<open>False\<close>, a zero and an empty container.\<close>

fun py_truthy :: "pyval \<Rightarrow> bool" where
  "py_truthy PNone = False"
| "py_truthy (PBool b) = b"
| "py_truthy (PInt n) = (n \<noteq> 0)"
| "py_truthy (PFloat x) = (x \<noteq> Fl 0 0 \<and> x \<noteq> NegZero)"
| "py_truthy (PStr s) = (s \<noteq> [])"
| "py_truthy (PList xs) = (xs \<noteq> [])"
| "py_truthy (PDict d) = (d \<noteq> [])"

text \<open>
  What a \<open>for\<close> loop sees: the items of a list, the characters of a string, the keys of a
  dict; nothing else here can be iterated.
\<close>

fun py_iter :: "pyval \<Rightarrow> pyerr + pyval list" where
  "py_iter (PList xs) = Inr xs"
| "py_iter (PStr s) = Inr (map (\<lambda>c. PStr [c]) s)"
| "py_iter (PDict d) = Inr (map (\<lambda>kv. PStr (fst kv)) d)"
| "py_iter v = Inl TypeError"

text \<open>\<open>d[k] = v\<close> and \<open>x.append(v)\<close>.\<close>

fun py_setitem :: "pyval \<Rightarrow> ustring \<Rightarrow> pyval \<Rightarrow> pyerr + pyval" where
  "py_setitem (PDict d) k v = Inr (PDict (dict_set d k v))"
| "py_setitem x k v = Inl TypeError"

fun py_append :: "pyval \<Rightarrow> pyval \<Rightarrow> pyerr + pyval" where
  "py_append (PList xs) v = Inr (PList (xs @ [v]))"
| "py_append x v = Inl AttributeError"

subsection \<open>Printing expenses\<close>

definition row_of :: "interp \<Rightarrow> nat \<Rightarrow> pyval \<Rightarrow> pyerr + out" where
  "row_of env i e =
     (case py_get e (ustr ''date'') (PStr (ustr ''----'')) of
        Inl err \<Rightarrow> Inl err
      | Inr d \<Rightarrow>
     (case py_get e (ustr ''category'') (PStr []) of
        Inl err \<Rightarrow> Inl err
      | Inr c \<Rightarrow>
     (case amount_of env e of
        Inl err \<Rightarrow> Inl err
      | Inr a \<Rightarrow>
     (case py_get e (ustr ''comment'') (PStr []) of
        Inl err \<Rightarrow> Inl err
      | Inr com \<Rightarrow>
          Inr (TableRow i (py_str env d) (py_str env c) (fmt2 a)
                 (py_strip (py_str env com)))))))"

fun print_rows :: "interp \<Rightarrow> nat \<Rightarrow> pyval list \<Rightarrow> world \<Rightarrow> unit io" where
  "print_rows env i [] w = Returned () w"
| "print_rows env i (e # es) w =
     (case row_of env i e of
        Inl err \<Rightarrow> Raised err w
      | Inr r \<Rightarrow> print_rows env (Suc i) es (emit r w))"

definition print_expenses :: "interp \<Rightarrow> pyval \<Rightarrow> world \<Rightarrow> unit io" where
  "print_expenses env expenses w =
     (if \<not> py_truthy expenses then Returned () (emit NoExpenses w)
      else
        bind (lift (py_iter expenses) (emit Rule72 (emit TableColumns (emit Rule72 (emit TableTitle w)))))
          (\<lambda>items w1.
             bind (print_rows env 1 items w1)
               (\<lambda>u w2.
                  bind (lift (total_expenses env items) (emit Rule72 w2))
                    (\<lambda>t w3. Returned () (emit (TableTotal (fmt2 (num_float t))) w3)))))"

subsection \<open>Command handlers\<close>

text \<open>
  A handler mutates the state dict it is given; the model returns the state after the call.
\<close>

definition cmd_help :: "world \<Rightarrow> unit io" where
  "cmd_help w = Returned () (emit Help w)"

definition cmd_set_budget :: "interp \<Rightarrow> pyval \<Rightarrow> world \<Rightarrow> pyval io" where
  "cmd_set_budget env state w =
     bind (parse_float env AskBudget w)
       (\<lambda>budget w1.
          bind (lift (py_setitem state (ustr ''budget'') (PFloat budget)) w1)
            (\<lambda>state1 w2.
               bind (save_state state1 w2)
                 (\<lambda>u w3. Returned state1 (emit (BudgetSet (fmt2 budget)) w3))))"

text \<open>The budget check that ends \<open>cmd_add_expense\<close>.\<close>

definition budget_notice :: "pyfloat \<Rightarrow> pyfloat \<Rightarrow> out list" where
  "budget_notice budget balance =
     (if fpos_sign budget \<and> fneg_sign balance then [OverBudgetWarning (fmt2 (fabs balance))]
      else if fpos_sign budget then [RemainingBudget (fmt2 balance)]
      else [])"

definition cmd_add_expense :: "interp \<Rightarrow> pyval \<Rightarrow> world \<Rightarrow> pyval io" where
  "cmd_add_expense env state w =
     bind (parse_float env AskAmount w)
       (\<lambda>amount w1.
     bind (py_input AskCategory w1)
       (\<lambda>cat_line w2.
     bind (parse_date env AskDate w2)
       (\<lambda>exp_date w3.
     bind (py_input AskComment w3)
       (\<lambda>comment_line w4.
     bind (lift (py_getitem state (ustr ''expenses'')) w4)
       (\<lambda>old w5.
     bind (lift (py_append old
                   (PDict [(ustr ''amount'', PFloat amount),
                           (ustr ''category'', PStr (normalize_category cat_line)),
                           (ustr ''date'', PStr exp_date),
                           (ustr ''comment'', PStr (py_strip comment_line))])) w5)
       (\<lambda>new w6.
     bind (lift (py_setitem state (ustr ''expenses'') new) w6)
       (\<lambda>state1 w7.
     bind (save_state state1 w7)
       (\<lambda>u w8.
     bind (lift (py_get state1 (ustr ''budget'') (PFloat (Fl 0 0))) (emit ExpenseAdded w8))
       (\<lambda>b w9.
     bind (lift (py_float env b) w9)
       (\<lambda>budget w10.
     bind (lift (py_iter new) w10)
       (\<lambda>items w11.
     bind (lift (calculate_balance env budget items) w11)
       (\<lambda>balance w12.
          Returned state1 (w12\<lparr>stdout := stdout w12 @ budget_notice budget balance\<rparr>)))))))))))))"

definition cmd_show_expenses :: "interp \<Rightarrow> pyval \<Rightarrow> world \<Rightarrow> unit io" where
  "cmd_show_expenses env state w =
     bind (lift (py_getitem state (ustr ''expenses'')) w) (print_expenses env)"

definition cmd_expenses_by_date :: "interp \<Rightarrow> pyval \<Rightarrow> world \<Rightarrow> unit io" where
  "cmd_expenses_by_date env state w =
     bind (parse_date env AskFilterDate w)
       (\<lambda>d w1.
          bind (lift (py_getitem state (ustr ''expenses'')) w1)
            (\<lambda>expenses w2.
               bind (lift (py_iter expenses) w2)
                 (\<lambda>items w3.
                    bind (lift (filter_by_date env items d) w3)
                      (\<lambda>filtered. print_expenses env (PList filtered)))))"

definition cmd_expenses_by_period :: "interp \<Rightarrow> pyval \<Rightarrow> world \<Rightarrow> unit io" where
  "cmd_expenses_by_period env state w =
     bind (parse_date env AskStart w)
       (\<lambda>start w1.
          bind (parse_date env AskEnd w1)
            (\<lambda>end w2.
               bind (lift (py_getitem state (ustr ''expenses'')) w2)
                 (\<lambda>expenses w3.
                    bind (lift (case strptime env start of
                                  None \<Rightarrow> Inl ValueError
                                | Some sd \<Rightarrow>
                                    (case strptime env end of
                                       None \<Rightarrow> Inl ValueError
                                     | Some ed \<Rightarrow> py_iter expenses)) w3)
                      (\<lambda>items w4.
                         bind (lift (filter_by_period env items start end) w4)
                           (\<lambda>filtered. print_expenses env (PList filtered))))))"

definition cmd_expenses_by_category :: "interp \<Rightarrow> pyval \<Rightarrow> world \<Rightarrow> unit io" where
  "cmd_expenses_by_category env state w =
     bind (py_input AskFilterCategory w)
       (\<lambda>line w1.
          if py_strip line = [] then Returned () (emit ErrEmptyCategory w1)
          else
            bind (lift (py_getitem state (ustr ''expenses'')) w1)
              (\<lambda>expenses w2.
                 bind (lift (py_iter expenses) w2)
                   (\<lambda>items w3.
                      bind (lift (filter_by_category env items (py_strip line)) w3)
                        (\<lambda>filtered. print_expenses env (PList filtered)))))"

definition cmd_balance :: "interp \<Rightarrow> pyval \<Rightarrow> world \<Rightarrow> unit io" where
  "cmd_balance env state w =
     bind (lift (py_get state (ustr ''budget'') (PFloat (Fl 0 0))) w)
       (\<lambda>b w1.
     bind (lift (py_float env b) w1)
       (\<lambda>budget w2.
     bind (lift (py_getitem state (ustr ''expenses'')) w2)
       (\<lambda>expenses w3.
     bind (lift (py_iter expenses) w3)
       (\<lambda>items w4.
     bind (lift (total_expenses env items) w4)
       (\<lambda>spent w5.
          Returned ()
            (w5\<lparr>stdout := stdout w5 @
                 [BalanceBudget (fmt2 budget), BalanceSpent (fmt2 (num_float spent)),
                  BalanceLeft (fmt2 (fsub budget (num_float spent)))] @
                 (if fpos_sign budget \<and> fneg_sign (fsub budget (num_float spent))
                  then [BalanceOver (fmt2 (fabs (fsub budget (num_float spent))))]
                  else [])\<rparr>))))))"

text \<open>
  The report is printed sorted by the lower-cased label (\<open>sorted\<close> is stable), with a total
  added up from \<open>0.0\<close> in that order.
\<close>

definition cmd_report_categories :: "interp \<Rightarrow> pyval \<Rightarrow> world \<Rightarrow> unit io" where
  "cmd_report_categories env state w =
     bind (lift (py_getitem state (ustr ''expenses'')) w)
       (\<lambda>expenses w1.
     bind (lift (py_iter expenses) w1)
       (\<lambda>items w2.
     bind (lift (report_by_categories env items) w2)
       (\<lambda>rep w3.
          if rep = [] then Returned () (emit NoReport w3)
          else
            (let rows = sort_key (\<lambda>kv. py_lower env (fst kv)) rep
             in Returned ()
                  (w3\<lparr>stdout := stdout w3 @ [ReportTitle, Rule40] @
                       map (\<lambda>kv. ReportRow (fst kv) (fmt2 (snd kv))) rows @
                       [Rule40, ReportTotal (fmt2 (foldl fadd (Fl 0 0) (map snd rows)))]\<rparr>)))))"

subsection \<open>The dispatcher\<close>

text \<open>The Ukrainian command phrases of the source, as code points.\<close>

definition name_help :: ustring where
  "name_help = [1076, 1086, 1087, 1086, 1084, 1086, 1075, 1072]"

definition name_set_budget :: ustring where
  "name_set_budget =
     [1074, 1089, 1090, 1072, 1085, 1086, 1074, 1080, 1090, 1080, 32,
      1073, 1102, 1076, 1078, 1077, 1090]"

definition name_add_expense :: ustring where
  "name_add_expense =
     [1076, 1086, 1076, 1072, 1090, 1080, 32, 1074, 1080, 1090, 1088, 1072, 1090, 1091]"

definition name_show_expenses :: ustring where
  "name_show_expenses =
     [1087, 1086, 1082, 1072, 1079, 1072, 1090, 1080, 32,
      1074, 1080, 1090, 1088, 1072, 1090, 1080]"

definition name_by_date :: ustring where
  "name_by_date =
     [1074, 1080, 1090, 1088, 1072, 1090, 1080, 32, 1079, 1072, 32, 1076, 1072, 1090, 1091]"

definition name_by_period :: ustring where
  "name_by_period =
     [1074, 1080, 1090, 1088, 1072, 1090, 1080, 32, 1079, 1072, 32,
      1087, 1077, 1088, 1110, 1086, 1076]"

definition name_by_category :: ustring where
  "name_by_category =
     [1074, 1080, 1090, 1088, 1072, 1090, 1080, 32, 1079, 1072, 32,
      1082, 1072, 1090, 1077, 1075, 1086, 1088, 1110, 1108, 1102]"

definition name_balance :: ustring where
  "name_balance = [1079, 1072, 1083, 1080, 1096, 1086, 1082]"

definition name_report :: ustring where
  "name_report =
     [1079, 1074, 1110, 1090, 32, 1079, 1072, 32,
      1082, 1072, 1090, 1077, 1075, 1086, 1088, 1110, 1103, 1084, 1080]"

definition name_exit :: ustring where
  "name_exit = [1074, 1080, 1081, 1090, 1080]"

text \<open>
  \<open>handle_command\<close> returns \<open>False\<close> when the session is to end; the model returns the
  state after the command with it.
\<close>

definition keep :: "pyval \<Rightarrow> unit io \<Rightarrow> (bool \<times> pyval) io" where
  "keep state m = bind m (\<lambda>u w. Returned (True, state) w)"

definition changed :: "pyval io \<Rightarrow> (bool \<times> pyval) io" where
  "changed m = bind m (\<lambda>state1 w. Returned (True, state1) w)"

datatype command =
    CmdHelp | CmdSetBudget | CmdAddExpense | CmdShowExpenses | CmdByDate | CmdByPeriod
  | CmdByCategory | CmdBalance | CmdReport | CmdExit | CmdUnknown

text \<open>The \<open>if\<close>/\<open>elif\<close> chain of \<open>handle_command\<close>: the first test that holds decides.\<close>

definition recognize :: "ustring \<Rightarrow> command" where
  "recognize cmd =
     (if cmd = name_help \<or> cmd = ustr ''help'' \<or> cmd = ustr ''?'' then CmdHelp
      else if cmd = name_set_budget then CmdSetBudget
      else if cmd = name_add_expense then CmdAddExpense
      else if cmd = name_show_expenses then CmdShowExpenses
      else if cmd = name_by_date then CmdByDate
      else if cmd = name_by_period then CmdByPeriod
      else if cmd = name_by_category then CmdByCategory
      else if cmd = name_balance then CmdBalance
      else if cmd = name_report then CmdReport
      else if cmd = name_exit \<or> cmd = ustr ''exit'' \<or> cmd = ustr ''quit'' then CmdExit
      else CmdUnknown)"

definition handle_command :: "interp \<Rightarrow> ustring \<Rightarrow> pyval \<Rightarrow> world \<Rightarrow> (bool \<times> pyval) io" where
  "handle_command env command state w =
     (case recognize (py_lower env (py_strip command)) of
        CmdHelp \<Rightarrow> keep state (cmd_help w)
      | CmdSetBudget \<Rightarrow> changed (cmd_set_budget env state w)
      | CmdAddExpense \<Rightarrow> changed (cmd_add_expense env state w)
      | CmdShowExpenses \<Rightarrow> keep state (cmd_show_expenses env state w)
      | CmdByDate \<Rightarrow> keep state (cmd_expenses_by_date env state w)
      | CmdByPeriod \<Rightarrow> keep state (cmd_expenses_by_period env state w)
      | CmdByCategory \<Rightarrow> keep state (cmd_expenses_by_category env state w)
      | CmdBalance \<Rightarrow> keep state (cmd_balance env state w)
      | CmdReport \<Rightarrow> keep state (cmd_report_categories env state w)
      | CmdExit \<Rightarrow> Returned (False, state) (emit Goodbye w)
      | CmdUnknown \<Rightarrow> Returned (True, state) (emit ErrUnknownCommand w))"

section \<open>Vocabulary of the specification\<close>

text \<open>
  An interpreter with empty Unicode tables. A session whose text stays within Basic Latin
  and the Cyrillic block, and that never prints a float, a list or a dict through \<open>str()\<close>,
  runs under it as under any other.
\<close>

definition plain_interp :: interp where
  "plain_interp = \<lparr>uni_digit = (\<lambda>c. None), uni_lower = (\<lambda>s. s), uni_repr = (\<lambda>v. [])\<rparr>"

text \<open>The amounts of the expenses a report counts under one label, in list order.\<close>

definition group_amounts :: "interp \<Rightarrow> ustring \<Rightarrow> pyval list \<Rightarrow> pyfloat list" where
  "group_amounts env l xs =
     concat (map (\<lambda>e. if label_of env e = Inr l
                        then (case amount_of env e of Inl err \<Rightarrow> [] | Inr a \<Rightarrow> [a])
                        else []) xs)"

text \<open>
  An amount that is a whole number: an integer, an integer-valued float, or absent (which
  counts as \<open>0\<close>).
\<close>

definition whole_amount :: "pyval \<Rightarrow> int option" where
  "whole_amount e =
     (case py_get e (ustr ''amount'') (PInt 0) of
        Inr (PInt n) \<Rightarrow> Some n
      | Inr (PFloat (Fl m x)) \<Rightarrow> if 0 \<le> x then Some (m * 2 ^ nat x) else None
      | _ \<Rightarrow> None)"

text \<open>The date an expense carries, when its \<open>date\<close> field is the text of a valid date.\<close>

definition date_of :: "interp \<Rightarrow> pyval \<Rightarrow> pydate option" where
  "date_of env e =
     (case e of
        PDict d \<Rightarrow>
          strptime env (py_str env (case map_of d (ustr ''date'') of None \<Rightarrow> PNone | Some v \<Rightarrow> v))
      | _ \<Rightarrow> None)"

definition dated_within :: "interp \<Rightarrow> pydate \<Rightarrow> pydate \<Rightarrow> pyval \<Rightarrow> bool" where
  "dated_within env lo hi e =
     (case date_of env e of None \<Rightarrow> False | Some d \<Rightarrow> lo \<le> d \<and> d \<le> hi)"

text \<open>The record \<open>cmd_add_expense\<close> builds from the four answers of the user.\<close>

definition expense_record :: "pyfloat \<Rightarrow> ustring \<Rightarrow> ustring \<Rightarrow> ustring \<Rightarrow> pyval" where
  "expense_record amount cat_line exp_date comment_line =
     PDict [(ustr ''amount'', PFloat amount),
            (ustr ''category'', PStr (normalize_category cat_line)),
            (ustr ''date'', PStr exp_date),
            (ustr ''comment'', PStr (py_strip comment_line))]"


section \<open>Evaluation\<close>

text \<open>The definitions a concrete run unfolds.\<close>

lemmas float_eval = round64_def round_ratio_def ratio_log2_def ratio_ge_pow2_def half_even_def
  bit_length.simps fl_normal.simps round_dyadic_def float_of_int_def Let_def

lemmas text_eval = ustr_def py_strip_def py_isspace_def py_str_def

lemmas dict_eval = label_of_def amount_of_def py_float_def

section \<open>Loading\<close>

text \<open>
  C1. \<open>load_state\<close> is to return the default Ledger whenever the parsed structure lacks a
  \<open>budget\<close> key. A file holding the JSON document \<open>5\<close> parses, and the number has no
  \<open>budget\<close> key, yet the membership test \<open>"budget" not in state\<close> raises \<open>TypeError\<close> on
  an \<open>int\<close>, which \<open>load_state\<close> does not catch: no Ledger is returned.
\<close>

theorem load_state_number_document_raises:
  "load_state (Doc (PInt 5)) = Inl TypeError"
  by (simp add: check_state_def)

section \<open>The report by category\<close>

lemma map_of_dict_set: "map_of (dict_set ps k v) = (map_of ps)(k \<mapsto> v)"
  by (induction ps) auto

lemma dict_set_keys: "set (map fst (dict_set ps k v)) = insert k (set (map fst ps))"
  by (induction ps) auto

lemma dict_set_distinct: "distinct (map fst ps) \<Longrightarrow> distinct (map fst (dict_set ps k v))"
proof (induction ps)
  case Nil
  then show ?case by simp
next
  case (Cons p ps)
  have "fst p \<noteq> k \<Longrightarrow> fst p \<notin> set (map fst (dict_set ps k v))"
    using Cons.prems by (simp add: dict_set_keys del: set_map)
  with Cons show ?case by auto
qed

lemma group_amounts_Nil: "group_amounts env l [] = []"
  by (simp add: group_amounts_def)

lemma group_amounts_Cons:
  "label_of env e = Inr c \<Longrightarrow> amount_of env e = Inr a \<Longrightarrow>
   group_amounts env l (e # es) =
     (if c = l then a # group_amounts env l es else group_amounts env l es)"
  by (simp add: group_amounts_def)

text \<open>
  The loop invariant of \<open>report_by_categories\<close>: an entry of the report is the entry it
  started from plus, in list order, the amounts counted under its label.
\<close>

lemma report_from_lookup:
  "report_from env rep xs = Inr r \<Longrightarrow>
   map_of r l =
     (if group_amounts env l xs = [] then map_of rep l
      else Some (foldl fadd (case map_of rep l of None \<Rightarrow> Fl 0 0 | Some x \<Rightarrow> x)
                   (group_amounts env l xs)))"
proof (induction xs arbitrary: rep)
  case Nil
  then show ?case by (simp add: group_amounts_Nil)
next
  case (Cons e es)
  from Cons.prems obtain c a where c: "label_of env e = Inr c" and a: "amount_of env e = Inr a"
    and rest: "report_from env
        (dict_set rep c (fadd (case map_of rep c of None \<Rightarrow> Fl 0 0 | Some x \<Rightarrow> x) a)) es = Inr r"
    by (auto split: sum.splits)
  show ?case
    using Cons.IH [OF rest]
    by (simp add: group_amounts_Cons [OF c a] map_of_dict_set)
qed

lemma report_from_distinct:
  "report_from env rep xs = Inr r \<Longrightarrow> distinct (map fst rep) \<Longrightarrow> distinct (map fst r)"
proof (induction xs arbitrary: rep)
  case Nil
  then show ?case by simp
next
  case (Cons e es)
  then show ?case
    by (auto split: sum.splits intro: dict_set_distinct)
qed

lemma report_from_returns:
  "list_all (\<lambda>e. is_dict e \<and> (\<exists>a. amount_of env e = Inr a)) xs \<Longrightarrow>
   \<exists>r. report_from env rep xs = Inr r"
proof (induction xs arbitrary: rep)
  case Nil
  then show ?case by simp
next
  case (Cons e es)
  from Cons.prems obtain d a where e: "e = PDict d" and a: "amount_of env e = Inr a"
    by (cases e) auto
  have "\<exists>c. label_of env e = Inr c"
    by (simp add: e label_of_def)
  with a Cons show ?case by auto
qed

lemma report_from_member:
  "report_from env rep xs = Inr r \<Longrightarrow> e \<in> set xs \<Longrightarrow>
   \<exists>c a. label_of env e = Inr c \<and> amount_of env e = Inr a"
  by (induction xs arbitrary: rep) (auto split: sum.splits)

lemma group_amounts_member:
  "e \<in> set xs \<Longrightarrow> label_of env e = Inr l \<Longrightarrow> amount_of env e = Inr a \<Longrightarrow>
   group_amounts env l xs \<noteq> []"
  by (induction xs) (auto simp: group_amounts_def)

lemma strip_sentinel: "py_strip sentinel = sentinel"
  by (simp add: py_strip_def sentinel_def py_isspace_def)

lemma label_of_dict:
  "label_of env (PDict d) =
     Inr (case map_of d (ustr ''category'') of
            None \<Rightarrow> sentinel
          | Some c \<Rightarrow> py_strip (py_str env c))"
  by (simp add: label_of_def py_str_def strip_sentinel split: option.splits)

lemma float_of_int_0: "float_of_int 0 = Inr (Fl 0 0)"
  by (simp add: float_of_int_def round64_def)

lemma amount_of_missing:
  "map_of d (ustr ''amount'') = None \<Longrightarrow> amount_of env (PDict d) = Inr (Fl 0 0)"
  by (simp add: amount_of_def py_float_def float_of_int_0)

text \<open>
  C2, as the code has it. Two expenses of any list whose categories are strings that differ
  only in surrounding whitespace are counted under one label, the trimmed text; the report
  has that label once, and its entry is the sum, from \<open>0.0\<close> in list order, of the amounts
  counted under it. Letter case is not folded.
\<close>

theorem report_merges_trimmed_labels:
  assumes run: "report_by_categories env xs = Inr r"
    and e1: "PDict d1 \<in> set xs" and e2: "PDict d2 \<in> set xs"
    and c1: "map_of d1 (ustr ''category'') = Some (PStr c1)"
    and c2: "map_of d2 (ustr ''category'') = Some (PStr c2)"
    and same: "py_strip c1 = py_strip c2"
  shows "label_of env (PDict d1) = Inr (py_strip c1)
       \<and> label_of env (PDict d2) = Inr (py_strip c1)
       \<and> distinct (map fst r)
       \<and> map_of r (py_strip c1) =
           Some (foldl fadd (Fl 0 0) (group_amounts env (py_strip c1) xs))"
proof -
  have l1: "label_of env (PDict d1) = Inr (py_strip c1)"
    using c1 by (simp add: label_of_dict py_str_def)
  have l2: "label_of env (PDict d2) = Inr (py_strip c1)"
    using c2 same by (simp add: label_of_dict py_str_def)
  from run have run': "report_from env [] xs = Inr r"
    by (simp add: report_by_categories_def)
  from report_from_member [OF run' e1] l1 obtain a where "amount_of env (PDict d1) = Inr a"
    by auto
  with e1 l1 have "group_amounts env (py_strip c1) xs \<noteq> []"
    by (rule group_amounts_member)
  with report_from_lookup [OF run', of "py_strip c1"] report_from_distinct [OF run'] l1 l2
  show ?thesis by simp
qed

text \<open>
  The theorem at the categories \<open>Food\<close> and \<open>Food\<close> followed by a blank, amounts 1 and 2:
  one group, total 3.
\<close>

theorem report_merges_trimmed_labels_witness:
  "report_by_categories plain_interp
     [PDict [(ustr ''amount'', PInt 1), (ustr ''category'', PStr (ustr ''Food''))],
      PDict [(ustr ''amount'', PInt 2), (ustr ''category'', PStr (ustr ''Food ''))]]
   = Inr [(ustr ''Food'', Fl 3 0)]
   \<and> py_strip (ustr ''Food'') = py_strip (ustr ''Food '')
   \<and> label_of plain_interp
        (PDict [(ustr ''amount'', PInt 2), (ustr ''category'', PStr (ustr ''Food ''))])
       = Inr (py_strip (ustr ''Food''))
   \<and> map_of [(ustr ''Food'', Fl 3 0)] (py_strip (ustr ''Food'')) =
       Some (foldl fadd (Fl 0 0)
         (group_amounts plain_interp (py_strip (ustr ''Food''))
            [PDict [(ustr ''amount'', PInt 1), (ustr ''category'', PStr (ustr ''Food''))],
             PDict [(ustr ''amount'', PInt 2), (ustr ''category'', PStr (ustr ''Food ''))]]))"
proof -
  let ?d1 = "[(ustr ''amount'', PInt 1), (ustr ''category'', PStr (ustr ''Food''))]"
  let ?d2 = "[(ustr ''amount'', PInt 2), (ustr ''category'', PStr (ustr ''Food ''))]"
  have run: "report_by_categories plain_interp [PDict ?d1, PDict ?d2]
      = Inr [(ustr ''Food'', Fl 3 0)]"
    by (simp add: report_by_categories_def dict_eval text_eval float_eval)
  have same: "py_strip (ustr ''Food'') = py_strip (ustr ''Food '')"
    by (simp add: text_eval)
  have c1: "map_of ?d1 (ustr ''category'') = Some (PStr (ustr ''Food''))"
    and c2: "map_of ?d2 (ustr ''category'') = Some (PStr (ustr ''Food ''))"
    by (simp_all add: ustr_def)
  show ?thesis
    using report_merges_trimmed_labels [OF run _ _ c1 c2 same] run same
    by simp
qed

text \<open>
  C2 as stated fails: the categories \<open>Food\<close> and \<open>food\<close> followed by a blank, amounts 1 and
  2, give two groups, totals 1 and 2. The result does not depend on the interpreter: the
  text is ASCII and no value goes through \<open>str()\<close> but strings.
\<close>

theorem report_case_variants_counterexample:
  "report_by_categories plain_interp
     [PDict [(ustr ''amount'', PInt 1), (ustr ''category'', PStr (ustr ''Food''))],
      PDict [(ustr ''amount'', PInt 2), (ustr ''category'', PStr (ustr ''food ''))]]
   = Inr [(ustr ''Food'', Fl 1 0), (ustr ''food'', Fl 1 1)]"
  by (simp add: report_by_categories_def dict_eval text_eval float_eval)

text \<open>
  C3, as the code has it. An expense with no \<open>category\<close> field is counted under the
  sentinel; one with the field is counted under the trimmed text of its value, so a blank
  category is counted under the empty label. A missing \<open>amount\<close> counts as \<open>0\<close>. The report
  returns when every expense is a dict whose amount converts to a float, and then it has
  each label once, with the sum, from \<open>0.0\<close> in list order, of the amounts counted under
  the label, and has no other entry.
\<close>

theorem report_by_categories_groups:
  "label_of env (PDict d) =
     Inr (case map_of d (ustr ''category'') of
            None \<Rightarrow> sentinel
          | Some c \<Rightarrow> py_strip (py_str env c))
   \<and> (map_of d (ustr ''amount'') = None \<longrightarrow> amount_of env (PDict d) = Inr (Fl 0 0))
   \<and> (list_all (\<lambda>e. is_dict e \<and> (\<exists>a. amount_of env e = Inr a)) xs \<longrightarrow>
        (\<exists>r. report_by_categories env xs = Inr r))
   \<and> (report_by_categories env xs = Inr r \<longrightarrow>
        distinct (map fst r)
        \<and> (\<forall>l. map_of r l =
              (if group_amounts env l xs = [] then None
               else Some (foldl fadd (Fl 0 0) (group_amounts env l xs)))))"
proof -
  have "report_by_categories env xs = Inr r \<Longrightarrow> distinct (map fst r)"
    using report_from_distinct [of env "[]" xs r] by (simp add: report_by_categories_def)
  moreover have "report_by_categories env xs = Inr r \<Longrightarrow>
      map_of r l = (if group_amounts env l xs = [] then None
                    else Some (foldl fadd (Fl 0 0) (group_amounts env l xs)))" for l
    using report_from_lookup [of env "[]" xs r l] by (simp add: report_by_categories_def)
  ultimately show ?thesis
    using report_from_returns [of env xs "[]"]
    by (simp add: label_of_dict amount_of_missing report_by_categories_def)
qed

text \<open>
  The theorem at an expense with neither field followed by one of amount 5 and no category:
  one group under the sentinel, total 5.
\<close>

theorem report_by_categories_groups_witness:
  "label_of plain_interp (PDict [(ustr ''date'', PStr (ustr ''2026-01-10''))]) = Inr sentinel
   \<and> amount_of plain_interp (PDict [(ustr ''date'', PStr (ustr ''2026-01-10''))]) = Inr (Fl 0 0)
   \<and> report_by_categories plain_interp
         [PDict [(ustr ''date'', PStr (ustr ''2026-01-10''))], PDict [(ustr ''amount'', PInt 5)]]
       = Inr [(sentinel, Fl 5 0)]
   \<and> map_of [(sentinel, Fl 5 0)] sentinel =
       Some (foldl fadd (Fl 0 0)
          (group_amounts plain_interp sentinel
             [PDict [(ustr ''date'', PStr (ustr ''2026-01-10''))],
              PDict [(ustr ''amount'', PInt 5)]]))"
proof -
  let ?d = "[(ustr ''date'', PStr (ustr ''2026-01-10''))]"
  let ?xs = "[PDict ?d, PDict [(ustr ''amount'', PInt 5)]]"
  have run: "report_by_categories plain_interp ?xs = Inr [(sentinel, Fl 5 0)]"
    by (simp add: report_by_categories_def dict_eval text_eval float_eval sentinel_def)
  have no_amt: "map_of ?d (ustr ''amount'') = None"
    by (simp add: ustr_def)
  have some: "group_amounts plain_interp sentinel ?xs \<noteq> []"
    by (simp add: group_amounts_def dict_eval text_eval float_eval sentinel_def)
  note T = report_by_categories_groups [of plain_interp ?d ?xs "[(sentinel, Fl 5 0)]"]
  have lab: "label_of plain_interp (PDict ?d) = Inr sentinel"
    using T [THEN conjunct1] by (simp add: ustr_def)
  have amt: "amount_of plain_interp (PDict ?d) = Inr (Fl 0 0)"
    using T [THEN conjunct2, THEN conjunct1] no_amt by blast
  have "\<forall>l. map_of [(sentinel, Fl 5 0)] l =
          (if group_amounts plain_interp l ?xs = [] then None
           else Some (foldl fadd (Fl 0 0) (group_amounts plain_interp l ?xs)))"
    using T [THEN conjunct2, THEN conjunct2, THEN conjunct2] run by blast
  then have "map_of [(sentinel, Fl 5 0)] sentinel =
          (if group_amounts plain_interp sentinel ?xs = [] then None
           else Some (foldl fadd (Fl 0 0) (group_amounts plain_interp sentinel ?xs)))"
    by (rule spec)
  with some have "map_of [(sentinel, Fl 5 0)] sentinel =
      Some (foldl fadd (Fl 0 0) (group_amounts plain_interp sentinel ?xs))"
    by (simp only: if_False)
  with lab amt run show ?thesis
    by (intro conjI)
qed

text \<open>
  C3 as stated fails for a category that is present but blank: the expense is counted under
  the empty label, not under the sentinel.
\<close>

theorem report_blank_category_counterexample:
  "report_by_categories plain_interp
     [PDict [(ustr ''amount'', PInt 5), (ustr ''category'', PStr (ustr ''  ''))]]
   = Inr [([], Fl 5 0)] \<and> sentinel \<noteq> []"
  by (simp add: report_by_categories_def dict_eval text_eval float_eval sentinel_def)

section \<open>Reading an amount\<close>

text \<open>
  C4. \<open>parse_float\<close> is never to return an invalid value. On the line \<open>nan\<close> the builtin
  \<open>float\<close> returns a NaN, the test \<open>value < 0\<close> is false for it, and \<open>parse_float\<close> returns
  the NaN after a single prompt.
\<close>

theorem parse_float_returns_nan:
  "parse_float plain_interp AskAmount
     \<lparr>stdin = [ustr ''nan''], stdout = [], disk = Missing, writable = True\<rparr>
   = Returned NaN \<lparr>stdin = [], stdout = [Prompt AskAmount], disk = Missing, writable = True\<rparr>"
  by (simp add: parse_float.simps py_input_def emit_def replace_comma_def float_of_str_def
      to_ascii_def c_strip_def c_isspace_def is_digit_def parse_number_def lower_cp_def text_eval)

section \<open>The total\<close>

text \<open>
  Rounding is the identity on the whole numbers below \<open>2 ^ 53\<close>: a sum of such amounts
  whose partial sums stay in that range is exact.
\<close>

lemma bit_length_pos: "0 < n \<Longrightarrow> 1 \<le> bit_length n"
proof -
  have "0 \<le> bit_length m" for m
    by (induction m rule: bit_length.induct) (subst bit_length.simps, simp)
  from this [of "n div 2"] show "0 < n \<Longrightarrow> 1 \<le> bit_length n"
    by (subst bit_length.simps) simp
qed

lemma bit_length_bounds:
  "0 < n \<Longrightarrow> 2 ^ nat (bit_length n - 1) \<le> n \<and> n < 2 ^ nat (bit_length n)"
proof (induction n rule: bit_length.induct)
  case (1 n)
  show ?case
  proof (cases "n = 1")
    case True
    then show ?thesis
      by (simp add: bit_length.simps [of 1] bit_length.simps [of 0])
  next
    case False
    with "1.prems" have h: "0 < n div 2" by simp
    with "1.prems" have IH: "2 ^ nat (bit_length (n div 2) - 1) \<le> n div 2"
      "n div 2 < 2 ^ nat (bit_length (n div 2))"
      using "1.IH" by simp_all
    have bl: "bit_length n = 1 + bit_length (n div 2)"
      using "1.prems" by (subst bit_length.simps) simp
    have p: "1 \<le> bit_length (n div 2)" using h by (rule bit_length_pos)
    then have e1: "nat (bit_length n - 1) = Suc (nat (bit_length (n div 2) - 1))"
      unfolding bl by simp
    from p have e2: "nat (bit_length n) = Suc (nat (bit_length (n div 2)))"
      unfolding bl by simp
    have d: "2 * (n div 2) \<le> n" "n \<le> 2 * (n div 2) + 1"
      by presburger+
    from IH d show ?thesis
      unfolding e1 e2 power_Suc by linarith
  qed
qed

lemma bit_length_1: "bit_length 1 = 1"
  by (simp add: bit_length.simps [of 1] bit_length.simps [of 0])

lemma bit_length_unique:
  assumes "0 \<le> k" and "2 ^ nat k \<le> n" and "n < 2 ^ nat (k + 1)"
  shows "bit_length n = k + 1"
proof -
  from assms have n: "0 < n"
    by (smt (verit) zero_less_power)
  from bit_length_bounds [OF n] have lo: "2 ^ nat (bit_length n - 1) \<le> n"
    and hi: "n < 2 ^ nat (bit_length n)" by simp_all
  have b: "1 \<le> bit_length n" using n by (rule bit_length_pos)
  have "(2::int) ^ nat k < 2 ^ nat (bit_length n)"
    using assms(2) hi by linarith
  then have 1: "nat k < nat (bit_length n)"
    by (simp add: power_strict_increasing_iff)
  have "(2::int) ^ nat (bit_length n - 1) < 2 ^ nat (k + 1)"
    using assms(3) lo by linarith
  then have 2: "nat (bit_length n - 1) < nat (k + 1)"
    by (simp add: power_strict_increasing_iff)
  from 1 2 b assms(1) show ?thesis by linarith
qed

lemma fl_normal_double: "m \<noteq> 0 \<Longrightarrow> fl_normal (2 * m) e = fl_normal m (e + 1)"
  by (subst fl_normal.simps) simp

lemma fl_normal_shift: "m \<noteq> 0 \<Longrightarrow> fl_normal (m * 2 ^ k) e = fl_normal m (e + int k)"
proof (induction k arbitrary: e)
  case 0
  then show ?case by simp
next
  case (Suc k)
  have "fl_normal (m * 2 ^ Suc k) e = fl_normal (2 * (m * 2 ^ k)) e"
    by (simp add: mult.commute mult.left_commute)
  also have "\<dots> = fl_normal (m * 2 ^ k) (e + 1)"
    using Suc.prems by (intro fl_normal_double) simp
  also have "\<dots> = fl_normal m (e + 1 + int k)"
    using Suc by simp
  finally show ?case by (simp add: add.commute add.left_commute)
qed

lemma half_even_exact: "half_even n 1 = n"
  by (simp add: half_even_def)

lemma round_ratio_small:
  assumes n: "0 < n" and small: "n < 2 ^ 53"
  shows "round_ratio n 1 = Some (n * 2 ^ nat (53 - bit_length n), bit_length n - 53)"
proof -
  let ?b = "bit_length n"
  from bit_length_bounds [OF n] have lo: "2 ^ nat (?b - 1) \<le> n" and hi: "n < 2 ^ nat ?b"
    by simp_all
  have b1: "1 \<le> ?b" using n by (rule bit_length_pos)
  have b53: "?b \<le> 53"
  proof (rule ccontr)
    assume "\<not> ?b \<le> 53"
    then have "53 \<le> nat (?b - 1)" by simp
    then have "(2::int) ^ 53 \<le> 2 ^ nat (?b - 1)"
      by (intro power_increasing) simp_all
    with lo small show False by linarith
  qed
  have lg: "ratio_log2 n 1 = ?b - 1"
    using lo b1 by (simp add: ratio_log2_def ratio_ge_pow2_def bit_length_1 Let_def)
  have e: "max (ratio_log2 n 1 - 52) (- 1074) = ?b - 53"
    using b1 by (simp add: lg)
  define q where "q = n * 2 ^ nat (53 - ?b)"
  have q: "(if 0 \<le> ?b - 53 then half_even n (1 * 2 ^ nat (?b - 53))
            else half_even (n * 2 ^ nat (- (?b - 53))) 1) = q"
  proof (cases "?b = 53")
    case True
    then show ?thesis by (simp add: q_def half_even_exact)
  next
    case False
    with b53 have "\<not> 0 \<le> ?b - 53" by simp
    then show ?thesis by (simp add: q_def half_even_exact)
  qed
  have qlo: "2 ^ nat 52 \<le> q"
  proof -
    have "(2::int) ^ nat 52 = 2 ^ (nat (?b - 1) + nat (53 - ?b))"
      using b1 b53 by (intro arg_cong [where f = "\<lambda>k. 2 ^ k"]) simp
    also have "\<dots> = 2 ^ nat (?b - 1) * 2 ^ nat (53 - ?b)"
      by (simp add: power_add)
    also have "\<dots> \<le> n * 2 ^ nat (53 - ?b)"
      using lo by (intro mult_right_mono) simp_all
    finally show ?thesis by (simp add: q_def)
  qed
  have qhi: "q < 2 ^ nat (52 + 1)"
  proof -
    have "n * 2 ^ nat (53 - ?b) < 2 ^ nat ?b * 2 ^ nat (53 - ?b)"
      using hi by (intro mult_strict_right_mono) simp_all
    also have "\<dots> = 2 ^ (nat ?b + nat (53 - ?b))"
      by (simp add: power_add)
    also have "\<dots> = 2 ^ nat (52 + 1)"
      using b1 b53 by (intro arg_cong [where f = "\<lambda>k. 2 ^ k"]) simp
    finally show ?thesis by (simp add: q_def)
  qed
  have bq: "bit_length q = 53"
    using bit_length_unique [of 52 q] qlo qhi by simp
  show ?thesis
    unfolding round_ratio_def Let_def e q bq
    using b53 by (simp add: q_def)
qed

lemma round64_small_pos:
  assumes "0 < n" and "n < 2 ^ 53"
  shows "round64 n 1 = fl_normal n 0"
proof -
  have b: "bit_length n \<le> 53"
  proof (rule ccontr)
    assume "\<not> bit_length n \<le> 53"
    then have "53 \<le> nat (bit_length n - 1)" by simp
    then have "(2::int) ^ 53 \<le> 2 ^ nat (bit_length n - 1)"
      by (intro power_increasing) simp_all
    with bit_length_bounds [OF assms(1)] assms(2) show False by linarith
  qed
  have "fl_normal (n * 2 ^ nat (53 - bit_length n)) (bit_length n - 53) = fl_normal n 0"
    using assms(1) b by (subst fl_normal_shift) simp_all
  then show ?thesis
    using assms by (simp add: round64_def round_ratio_small)
qed

lemma round64_small:
  assumes "\<bar>n\<bar> < 2 ^ 53"
  shows "round64 n 1 = fl_normal n 0"
proof -
  consider "n = 0" | "0 < n" | "n < 0" by linarith
  then show ?thesis
  proof cases
    case 1
    then show ?thesis by (simp add: round64_def fl_normal.simps [of 0])
  next
    case 2
    with assms show ?thesis by (simp add: round64_small_pos)
  next
    case 3
    let ?p = "- n"
    from 3 assms have p: "0 < ?p" "?p < 2 ^ 53" by simp_all
    have b: "bit_length ?p \<le> 53"
    proof (rule ccontr)
      assume "\<not> bit_length ?p \<le> 53"
      then have "53 \<le> nat (bit_length ?p - 1)" by simp
      then have "(2::int) ^ 53 \<le> 2 ^ nat (bit_length ?p - 1)"
        by (intro power_increasing) simp_all
      with bit_length_bounds [OF p(1)] p(2) show False by linarith
    qed
    have q0: "?p * 2 ^ nat (53 - bit_length ?p) \<noteq> 0"
      using p by simp
    have "fl_normal (- (?p * 2 ^ nat (53 - bit_length ?p))) (bit_length ?p - 53)
        = fl_normal (n * 2 ^ nat (53 - bit_length ?p)) (bit_length ?p - 53)"
      by simp
    also have "\<dots> = fl_normal n 0"
      using 3 b by (subst fl_normal_shift) simp_all
    finally show ?thesis
      using 3 q0 by (simp add: round64_def round_ratio_small [OF p])
  qed
qed

lemma fl_normal_0: "fl_normal 0 e = Fl 0 0"
  by (subst fl_normal.simps) simp

lemma fl_normal_form:
  "n \<noteq> 0 \<Longrightarrow> \<exists>m x. fl_normal n e = Fl m x \<and> e \<le> x \<and> m * 2 ^ nat (x - e) = n"
proof (induction n e rule: fl_normal.induct)
  case (1 m e)
  show ?case
  proof (cases "even m")
    case True
    with "1.prems" have "m div 2 \<noteq> 0" by auto
    with True "1.prems" "1.IH" obtain m' x where f: "fl_normal (m div 2) (e + 1) = Fl m' x"
      and x: "e + 1 \<le> x" and v: "m' * 2 ^ nat (x - (e + 1)) = m div 2"
      by blast
    from x have "nat (x - e) = Suc (nat (x - (e + 1)))" by simp
    with v True have "m' * 2 ^ nat (x - e) = m" by auto
    with f x "1.prems" True show ?thesis
      by (subst fl_normal.simps) auto
  next
    case False
    with "1.prems" show ?thesis
      by (subst fl_normal.simps) auto
  qed
qed

lemma fl_normal_whole: "\<exists>m x. fl_normal n 0 = Fl m x \<and> 0 \<le> x \<and> m * 2 ^ nat x = n"
proof (cases "n = 0")
  case True
  then show ?thesis by (simp add: fl_normal_0)
next
  case False
  from fl_normal_form [OF this, of 0] show ?thesis by simp
qed

lemma fadd_whole:
  assumes "0 \<le> e1" and "0 \<le> e2"
  shows "fadd (Fl m1 e1) (Fl m2 e2) = round64 (m1 * 2 ^ nat e1 + m2 * 2 ^ nat e2) 1"
proof -
  define e where "e = min e1 e2"
  have e: "0 \<le> e" "e \<le> e1" "e \<le> e2" using assms by (simp_all add: e_def)
  have 1: "nat e1 = nat (e1 - e) + nat e" and 2: "nat e2 = nat (e2 - e) + nat e"
    using e by simp_all
  have "(m1 * 2 ^ nat (e1 - e) + m2 * 2 ^ nat (e2 - e)) * 2 ^ nat e
      = m1 * 2 ^ nat e1 + m2 * 2 ^ nat e2"
    by (subst 1, subst 2) (simp add: power_add algebra_simps)
  then show ?thesis
    using e(1) by (simp add: round_dyadic_def Let_def e_def [symmetric])
qed

lemma amount_of_whole:
  assumes w: "whole_amount e = Some n" and small: "\<bar>n\<bar> < 2 ^ 53"
  shows "\<exists>m x. amount_of env e = Inr (Fl m x) \<and> 0 \<le> x \<and> m * 2 ^ nat x = n"
proof -
  from w obtain v where g: "py_get e (ustr ''amount'') (PInt 0) = Inr v"
    by (auto simp: whole_amount_def split: sum.splits)
  show ?thesis
  proof (cases v)
    case (PInt k)
    with w g have k: "k = n" by (simp add: whole_amount_def)
    from fl_normal_whole [of n] obtain m x where f: "fl_normal n 0 = Fl m x"
      and x: "0 \<le> x" "m * 2 ^ nat x = n" by blast
    have "float_of_int n = Inr (Fl m x)"
      using small f by (simp add: float_of_int_def round64_small)
    with g PInt k x show ?thesis
      by (auto simp: amount_of_def py_float_def)
  next
    case (PFloat f)
    with w g obtain m x where f: "f = Fl m x" and x: "0 \<le> x" "m * 2 ^ nat x = n"
      by (auto simp: whole_amount_def split: pyfloat.splits if_splits)
    with g PFloat show ?thesis
      by (auto simp: amount_of_def py_float_def)
  qed (use w g in \<open>simp_all add: whole_amount_def\<close>)
qed

lemma sum_amounts_whole:
  assumes "list_all (\<lambda>e. whole_amount e \<noteq> None) xs"
    and "num_float acc = Fl m x" and "0 \<le> x"
    and "\<bar>m * 2 ^ nat x\<bar> + (\<Sum>e\<leftarrow>xs. \<bar>the (whole_amount e)\<bar>) < 2 ^ 53"
  shows "sum_amounts env acc xs =
     Inr (if xs = [] then acc
          else PFloat (fl_normal (m * 2 ^ nat x + (\<Sum>e\<leftarrow>xs. the (whole_amount e))) 0))"
  using assms
proof (induction xs arbitrary: acc m x)
  case Nil
  then show ?case by simp
next
  case (Cons e es)
  from Cons.prems(1) obtain n where n: "whole_amount e = Some n" by auto
  let ?s = "m * 2 ^ nat x"
  let ?rest = "\<Sum>e\<leftarrow>es. \<bar>the (whole_amount e)\<bar>"
  have rest0: "0 \<le> ?rest" by (induction es) simp_all
  from Cons.prems(4) n have bound: "\<bar>?s\<bar> + \<bar>n\<bar> + ?rest < 2 ^ 53" by simp
  with rest0 have nsmall: "\<bar>n\<bar> < 2 ^ 53" by linarith
  from amount_of_whole [OF n nsmall, of env] obtain m' x' where
    a: "amount_of env e = Inr (Fl m' x')" and x': "0 \<le> x'" and v': "m' * 2 ^ nat x' = n"
    by blast
  from bound rest0 have snsmall: "\<bar>?s + n\<bar> < 2 ^ 53" by linarith
  have "fadd (Fl m x) (Fl m' x') = round64 (?s + m' * 2 ^ nat x') 1"
    using Cons.prems(3) x' by (rule fadd_whole)
  also have "\<dots> = fl_normal (?s + n) 0"
    unfolding v' using snsmall by (rule round64_small)
  finally have add: "fadd (num_float acc) (Fl m' x') = fl_normal (?s + n) 0"
    unfolding Cons.prems(2) .
  from fl_normal_whole [of "?s + n"] obtain m2 x2 where
    f2: "fl_normal (?s + n) 0 = Fl m2 x2" and x2: "0 \<le> x2" and v2: "m2 * 2 ^ nat x2 = ?s + n"
    by blast
  have "sum_amounts env (PFloat (fl_normal (?s + n) 0)) es =
     Inr (if es = [] then PFloat (fl_normal (?s + n) 0)
          else PFloat (fl_normal (m2 * 2 ^ nat x2 + (\<Sum>e\<leftarrow>es. the (whole_amount e))) 0))"
  proof (rule Cons.IH)
    show "list_all (\<lambda>e. whole_amount e \<noteq> None) es" using Cons.prems(1) by simp
    show "num_float (PFloat (fl_normal (?s + n) 0)) = Fl m2 x2" using f2 by simp
    show "0 \<le> x2" by (rule x2)
    show "\<bar>m2 * 2 ^ nat x2\<bar> + ?rest < 2 ^ 53"
      unfolding v2 using bound by linarith
  qed
  then show ?case
    using a add n by (simp add: v2 add.assoc)
qed

lemma total_expenses_whole:
  assumes "list_all (\<lambda>e. whole_amount e \<noteq> None) xs"
    and "(\<Sum>e\<leftarrow>xs. \<bar>the (whole_amount e)\<bar>) < 2 ^ 53"
  shows "total_expenses env xs =
     Inr (if xs = [] then PInt 0 else PFloat (fl_normal (\<Sum>e\<leftarrow>xs. the (whole_amount e)) 0))"
  using sum_amounts_whole [of xs "PInt 0" 0 0 env] assms
  by (simp add: total_expenses_def)

text \<open>
  C5, as the code has it. The total of the empty list is \<open>0\<close>. When every amount is a whole
  number (an integer, an integer-valued float, or absent) and the absolute values add up to
  less than \<open>2 ^ 53\<close>, the total is the exact sum and every reordering of the list has the
  same total. Beyond that, float addition rounds and overflows, and the order matters.
\<close>

theorem total_expenses_reorder:
  "total_expenses env [] = Inr (PInt 0)
   \<and> (list_all (\<lambda>e. whole_amount e \<noteq> None) xs \<longrightarrow>
        (\<Sum>e\<leftarrow>xs. \<bar>the (whole_amount e)\<bar>) < 2 ^ 53 \<longrightarrow>
        total_expenses env xs =
          Inr (if xs = [] then PInt 0
               else PFloat (fl_normal (\<Sum>e\<leftarrow>xs. the (whole_amount e)) 0))
        \<and> (mset ys = mset xs \<longrightarrow> total_expenses env ys = total_expenses env xs))"
proof -
  have perm: "total_expenses env ys = total_expenses env xs"
    if all: "list_all (\<lambda>e. whole_amount e \<noteq> None) xs"
      and small: "(\<Sum>e\<leftarrow>xs. \<bar>the (whole_amount e)\<bar>) < 2 ^ 53"
      and p: "mset ys = mset xs"
  proof -
    from p have set: "set ys = set xs" by (rule mset_eq_setD)
    have sum: "(\<Sum>e\<leftarrow>ys. f e) = (\<Sum>e\<leftarrow>xs. f e)" for f :: "pyval \<Rightarrow> int"
      using p by (metis mset_map sum_mset_sum_list)
    have all': "list_all (\<lambda>e. whole_amount e \<noteq> None) ys"
      using all set by (simp add: list_all_iff)
    have e: "ys = [] \<longleftrightarrow> xs = []" using p by (metis mset_zero_iff)
    show ?thesis
      using total_expenses_whole [OF all small, of env]
        total_expenses_whole [OF all', of env] small
      by (simp add: sum e)
  qed
  show ?thesis
    using perm total_expenses_whole [of xs env]
    by (simp add: total_expenses_def)
qed

text \<open>The theorem at the amounts 30, 12.0 and a missing one, and at the reversed list.\<close>

theorem total_expenses_reorder_witness:
  "total_expenses plain_interp
     [PDict [(ustr ''comment'', PStr [])],
      PDict [(ustr ''amount'', PFloat (Fl 3 2))],
      PDict [(ustr ''amount'', PInt 30)]]
   = total_expenses plain_interp
     [PDict [(ustr ''amount'', PInt 30)],
      PDict [(ustr ''amount'', PFloat (Fl 3 2))],
      PDict [(ustr ''comment'', PStr [])]]
   \<and> total_expenses plain_interp
     [PDict [(ustr ''amount'', PInt 30)],
      PDict [(ustr ''amount'', PFloat (Fl 3 2))],
      PDict [(ustr ''comment'', PStr [])]]
   = Inr (PFloat (Fl 21 1))"
proof -
  let ?xs = "[PDict [(ustr ''amount'', PInt 30)],
      PDict [(ustr ''amount'', PFloat (Fl 3 2))],
      PDict [(ustr ''comment'', PStr [])]]"
  let ?ys = "[PDict [(ustr ''comment'', PStr [])],
      PDict [(ustr ''amount'', PFloat (Fl 3 2))],
      PDict [(ustr ''amount'', PInt 30)]]"
  have w: "whole_amount (PDict [(ustr ''amount'', PInt 30)]) = Some 30"
    "whole_amount (PDict [(ustr ''amount'', PFloat (Fl 3 2))]) = Some 12"
    "whole_amount (PDict [(ustr ''comment'', PStr [])]) = Some 0"
    by (simp_all add: whole_amount_def ustr_def)
  have all: "list_all (\<lambda>e. whole_amount e \<noteq> None) ?xs"
    by (simp add: w)
  have small: "(\<Sum>e\<leftarrow>?xs. \<bar>the (whole_amount e)\<bar>) < 2 ^ 53"
    by (simp add: w)
  have p: "mset ?ys = mset ?xs"
    by (simp add: add.commute)
  have n: "fl_normal 42 0 = Fl 21 1"
    by (simp add: fl_normal.simps)
  from total_expenses_reorder [of plain_interp ?xs ?ys] all small p
  have "total_expenses plain_interp ?xs =
          Inr (PFloat (fl_normal (\<Sum>e\<leftarrow>?xs. the (whole_amount e)) 0))"
    and "total_expenses plain_interp ?ys = total_expenses plain_interp ?xs"
    by simp_all
  then show ?thesis
    by (simp add: w n)
qed

text \<open>
  C5 as stated fails: with \<open>a = 2 ^ 1023\<close> (8.98846567431158e+307, as a hand-edited store
  can hold it), the amounts \<open>a, a, -a\<close> add up to infinity, since \<open>a + a\<close> overflows, and
  the reordering \<open>a, -a, a\<close> adds up to \<open>a\<close>.
\<close>

theorem total_expenses_reorder_counterexample:
  "total_expenses plain_interp
     [PDict [(ustr ''amount'', PFloat (Fl 1 1023))],
      PDict [(ustr ''amount'', PFloat (Fl 1 1023))],
      PDict [(ustr ''amount'', PFloat (Fl (- 1) 1023))]]
   = Inr (PFloat PosInf)
   \<and> total_expenses plain_interp
     [PDict [(ustr ''amount'', PFloat (Fl 1 1023))],
      PDict [(ustr ''amount'', PFloat (Fl (- 1) 1023))],
      PDict [(ustr ''amount'', PFloat (Fl 1 1023))]]
   = Inr (PFloat (Fl 1 1023))"
  by (simp add: total_expenses_def amount_of_def py_float_def float_eval)

section \<open>Filtering by period\<close>

lemmas date_eval = strptime_def year_of_def month_of_def day_of_def digit_of_def is_digit_def
  valid_date_def days_in_month_def leap_year_def

lemma filter_err_total:
  "list_all (\<lambda>x. p x = Inr (q x)) xs \<Longrightarrow> filter_err p xs = Inr (filter q xs)"
  by (induction xs) auto

lemma in_period_dict:
  "in_period env lo hi (PDict d) = Inr (dated_within env lo hi (PDict d))"
  by (simp add: in_period_def dated_within_def date_of_def split: option.splits)

lemma filter_in_period:
  assumes "list_all is_dict xs"
  shows "filter_err (in_period env lo hi) xs = Inr (filter (dated_within env lo hi) xs)"
proof (rule filter_err_total)
  show "list_all (\<lambda>x. in_period env lo hi x = Inr (dated_within env lo hi x)) xs"
    using assms
  proof (induction xs)
    case Nil
    then show ?case by simp
  next
    case (Cons x xs)
    then show ?case by (cases x) (simp_all add: in_period_dict)
  qed
qed

lemma filter_by_period_accepted:
  assumes "strptime env start = Some sd" and "strptime env end = Some ed"
  shows "filter_by_period env xs start end = filter_err (in_period env (min sd ed) (max sd ed)) xs"
proof (cases "ed < sd")
  case True
  then have "min sd ed = ed" and "max sd ed = sd" by simp_all
  with True assms show ?thesis by (simp add: filter_by_period_def)
next
  case False
  then have "min sd ed = sd" and "max sd ed = ed" by simp_all
  with False assms show ?thesis by (simp add: filter_by_period_def)
qed

text \<open>The parser accepts the ISO text of every valid date, and only texts of valid dates.\<close>

lemma digit_of_ascii: "k < 10 \<Longrightarrow> digit_of env (48 + k) = Some k"
  by (simp add: digit_of_def is_digit_def)

lemma decimal_digits_4:
  "1000 * (y div 1000) + 100 * (y div 100 mod 10) + 10 * (y div 10 mod 10) + y mod 10 = (y::nat)"
proof -
  define a where "a = y div 10"
  define b where "b = a div 10"
  define c where "c = b div 10"
  have 1: "y = 10 * a + y mod 10" by (simp add: a_def)
  have 2: "a = 10 * b + a mod 10" by (simp add: b_def)
  have 3: "b = 10 * c + b mod 10" by (simp add: c_def)
  have 4: "y div 100 = b" by (simp add: a_def b_def div_mult2_eq)
  have 5: "y div 1000 = c" by (simp add: a_def b_def c_def div_mult2_eq)
  have 6: "y div 10 = a" by (simp add: a_def)
  show ?thesis
    unfolding 4 5 6 using 1 2 3 by linarith
qed

lemma year_of_iso:
  assumes y: "y \<le> 9999"
  shows "year_of env ((48 + y div 1000) # (48 + y div 100 mod 10) # (48 + y div 10 mod 10) # (48 + y mod 10) # r)
     = Some (y, r)"
proof -
  from y have d: "y div 1000 < 10" by simp
  have e: "y div 100 mod 10 < 10" "y div 10 mod 10 < 10" "y mod 10 < 10" by simp_all
  show ?thesis
    unfolding year_of_def
    by (simp only: list.case digit_of_ascii [OF d] digit_of_ascii [OF e(1)]
        digit_of_ascii [OF e(2)] digit_of_ascii [OF e(3)] option.case decimal_digits_4)
qed

lemma month_of_iso:
  "1 \<le> m \<Longrightarrow> m \<le> 12 \<Longrightarrow> month_of ((48 + m div 10) # (48 + m mod 10) # 45 # r) = Some (m, r)"
proof -
  assume m: "1 \<le> m" "m \<le> 12"
  then consider "m < 10" | "m = 10" | "m = 11" | "m = 12" by linarith
  then show ?thesis
  proof cases
    case 1
    with m show ?thesis by (simp add: month_of_def)
  qed (simp_all add: month_of_def)
qed

lemma day_of_iso:
  "1 \<le> d \<Longrightarrow> d \<le> 31 \<Longrightarrow> day_of env [48 + d div 10, 48 + d mod 10] = Some d"
proof -
  assume d: "1 \<le> d" "d \<le> 31"
  then consider "d < 10" | "10 \<le> d \<and> d < 20" | "20 \<le> d \<and> d < 30" | "d = 30" | "d = 31"
    by linarith
  then show ?thesis
  proof cases
    case 1
    with d show ?thesis by (simp add: day_of_def)
  next
    case 2
    then have "d div 10 = 1" by presburger
    moreover have "d mod 10 < 10" by simp
    moreover from 2 have "10 + d mod 10 = d" by presburger
    ultimately show ?thesis by (simp add: day_of_def digit_of_ascii)
  next
    case 3
    then have "d div 10 = 2" by presburger
    moreover have "d mod 10 < 10" by simp
    moreover from 3 have "20 + d mod 10 = d" by presburger
    ultimately show ?thesis by (simp add: day_of_def digit_of_ascii)
  qed (simp_all add: day_of_def)
qed

lemma days_in_month_le: "days_in_month y m \<le> 31"
  by (simp add: days_in_month_def)

lemma strptime_isoformat: "valid_date dt \<Longrightarrow> strptime env (isoformat dt) = Some dt"
proof -
  assume v: "valid_date dt"
  obtain y m d where dt: "dt = (y, m, d)" by (cases dt)
  from v dt have y: "y \<le> 9999" and m: "1 \<le> m" "m \<le> 12" and d: "1 \<le> d" "d \<le> 31"
    using days_in_month_le [of y m] by (auto simp: valid_date_def)
  show ?thesis
    using v unfolding dt
    by (simp add: strptime_def isoformat_def year_of_iso [OF y] month_of_iso [OF m] day_of_iso [OF d])
qed

lemma strptime_valid: "strptime env s = Some dt \<Longrightarrow> valid_date dt"
  unfolding strptime_def
  by (simp split: option.splits list.splits if_splits prod.splits)

text \<open>
  C6. For bounds that are the text of valid dates, \<open>filter_by_period\<close> gives the same
  result with the bounds exchanged, whatever the list; and on a list of expense records it
  returns, in their order, exactly the expenses whose \<open>date\<close> is the text of a valid date
  between the earlier and the later bound, both included. An expense whose date does not
  parse is left out and nothing is raised for it.
\<close>

theorem filter_by_period_swap_range:
  assumes s: "strptime env start = Some sd" and e: "strptime env end = Some ed"
  shows "filter_by_period env xs start end = filter_by_period env xs end start
       \<and> (list_all is_dict xs \<longrightarrow>
            filter_by_period env xs start end
              = Inr (filter (dated_within env (min sd ed) (max sd ed)) xs))"
proof -
  have fwd: "filter_by_period env xs start end
      = filter_err (in_period env (min sd ed) (max sd ed)) xs"
    by (rule filter_by_period_accepted [OF s e])
  have bwd: "filter_by_period env xs end start
      = filter_err (in_period env (min sd ed) (max sd ed)) xs"
    using filter_by_period_accepted [OF e s, of xs] by (simp add: min.commute max.commute)
  have "list_all is_dict xs \<Longrightarrow>
      filter_by_period env xs start end
        = Inr (filter (dated_within env (min sd ed) (max sd ed)) xs)"
    unfolding fwd by (rule filter_in_period)
  with fwd bwd show ?thesis by simp
qed

text \<open>
  The theorem at a list with a date in range, a date that does not parse and a date out of
  range, the later bound given first.
\<close>

theorem filter_by_period_swap_range_witness:
  "filter_by_period plain_interp
     [PDict [(ustr ''date'', PStr (ustr ''2026-01-10''))],
      PDict [(ustr ''date'', PStr (ustr ''soon''))],
      PDict [(ustr ''date'', PStr (ustr ''2026-03-01''))]]
     (ustr ''2026-02-01'') (ustr ''2026-01-01'')
   = Inr [PDict [(ustr ''date'', PStr (ustr ''2026-01-10''))]]
   \<and> filter_by_period plain_interp
     [PDict [(ustr ''date'', PStr (ustr ''2026-01-10''))],
      PDict [(ustr ''date'', PStr (ustr ''soon''))],
      PDict [(ustr ''date'', PStr (ustr ''2026-03-01''))]]
     (ustr ''2026-01-01'') (ustr ''2026-02-01'')
   = Inr [PDict [(ustr ''date'', PStr (ustr ''2026-01-10''))]]"
proof -
  let ?xs = "[PDict [(ustr ''date'', PStr (ustr ''2026-01-10''))],
      PDict [(ustr ''date'', PStr (ustr ''soon''))],
      PDict [(ustr ''date'', PStr (ustr ''2026-03-01''))]]"
  have s: "strptime plain_interp (ustr ''2026-02-01'') = Some (2026, 2, 1)"
    by (simp add: date_eval ustr_def)
  have e: "strptime plain_interp (ustr ''2026-01-01'') = Some (2026, 1, 1)"
    by (simp add: date_eval ustr_def)
  have run: "filter_by_period plain_interp ?xs (ustr ''2026-01-01'') (ustr ''2026-02-01'')
      = Inr [PDict [(ustr ''date'', PStr (ustr ''2026-01-10''))]]"
    by (simp add: filter_by_period_def in_period_def date_eval text_eval)
  from filter_by_period_swap_range [OF s e, of ?xs] run show ?thesis
    by simp
qed

text \<open>
  C10, as the code has it. \<open>filter_by_period\<close> raises \<open>ValueError\<close> when \<open>strptime\<close> rejects
  a bound, and on a list of expense records it returns exactly when \<open>strptime\<close> accepts
  both. What \<open>strptime\<close> accepts always denotes a valid calendar date, and it accepts the
  text \<open>YYYY-MM-DD\<close> of every valid date; it also accepts a month or a day written without
  its leading zero, so the accepted bounds are more than the texts of the form
  \<open>YYYY-MM-DD\<close>.
\<close>

theorem filter_by_period_bounds:
  "(strptime env start = None \<or> strptime env end = None \<longrightarrow>
      filter_by_period env xs start end = Inl ValueError)
   \<and> (list_all is_dict xs \<longrightarrow>
        ((\<exists>r. filter_by_period env xs start end = Inr r)
           \<longleftrightarrow> (\<exists>sd ed. strptime env start = Some sd \<and> strptime env end = Some ed)))
   \<and> (strptime env start = Some dt \<longrightarrow> valid_date dt)
   \<and> (valid_date dt \<longrightarrow> strptime env (isoformat dt) = Some dt)"
proof -
  have bad: "strptime env start = None \<or> strptime env end = None \<Longrightarrow>
      filter_by_period env xs start end = Inl ValueError"
    by (auto simp: filter_by_period_def split: option.splits)
  have good: "list_all is_dict xs \<Longrightarrow>
      strptime env start = Some sd \<Longrightarrow> strptime env end = Some ed \<Longrightarrow>
      \<exists>r. filter_by_period env xs start end = Inr r" for sd ed
    by (simp add: filter_by_period_accepted filter_in_period)
  have iff: "list_all is_dict xs \<Longrightarrow>
      (\<exists>r. filter_by_period env xs start end = Inr r)
        \<longleftrightarrow> (\<exists>sd ed. strptime env start = Some sd \<and> strptime env end = Some ed)"
    using bad good by (cases "strptime env start"; cases "strptime env end") auto
  show ?thesis
    using bad iff strptime_valid [of env start dt] strptime_isoformat [of dt env]
    by blast
qed

text \<open>The theorem at a bound that is no date and at the unpadded bound \<open>2026-1-5\<close>.\<close>

theorem filter_by_period_bounds_witness:
  "filter_by_period plain_interp [] (ustr ''next week'') (ustr ''2026-01-31'') = Inl ValueError
   \<and> (\<exists>r. filter_by_period plain_interp [] (ustr ''2026-1-5'') (ustr ''2026-01-31'') = Inr r)
   \<and> valid_date (2026, 1, 5)
   \<and> strptime plain_interp (isoformat (2026, 1, 5)) = Some (2026, 1, 5)"
proof -
  have bad: "strptime plain_interp (ustr ''next week'') = None"
    by (simp add: date_eval ustr_def)
  have s: "strptime plain_interp (ustr ''2026-1-5'') = Some (2026, 1, 5)"
    by (simp add: date_eval ustr_def)
  have e: "strptime plain_interp (ustr ''2026-01-31'') = Some (2026, 1, 31)"
    by (simp add: date_eval ustr_def)
  note A = filter_by_period_bounds
    [of plain_interp "ustr ''next week''" "ustr ''2026-01-31''" "[]" "(2026, 1, 5)"]
  note B = filter_by_period_bounds
    [of plain_interp "ustr ''2026-1-5''" "ustr ''2026-01-31''" "[]" "(2026, 1, 5)"]
  have 1: "filter_by_period plain_interp [] (ustr ''next week'') (ustr ''2026-01-31'')
      = Inl ValueError"
    using A bad by blast
  have 2: "\<exists>r. filter_by_period plain_interp [] (ustr ''2026-1-5'') (ustr ''2026-01-31'') = Inr r"
    using B s e by simp
  have 3: "valid_date (2026, 1, 5)"
    using B s by blast
  have 4: "strptime plain_interp (isoformat (2026, 1, 5)) = Some (2026, 1, 5)"
    using B 3 by blast
  from 1 2 3 4 show ?thesis by blast
qed

text \<open>
  C10 as stated fails at the start bound \<open>2026-1-5\<close>: it is not of the form
  \<open>YYYY-MM-DD\<close>, and \<open>filter_by_period\<close> returns.
\<close>

theorem filter_by_period_unpadded_bound_counterexample:
  "filter_by_period plain_interp [] (ustr ''2026-1-5'') (ustr ''2026-01-31'') = Inr []"
  by (simp add: filter_by_period_def date_eval ustr_def)

section \<open>Saving and loading\<close>






section \<open>Adding an expense\<close>

lemma bindE:
  assumes "bind m f = Returned y w'"
  obtains x w1 where "m = Returned x w1" and "f x w1 = Returned y w'"
  using assms by (cases m) (simp_all add: bind_def)

lemma lift_Returned: "lift r w = Returned x w' \<longleftrightarrow> r = Inr x \<and> w' = w"
  by (cases r) (auto simp: lift_def)

lemma save_state_Returned:
  "save_state state w = Returned u w' \<Longrightarrow> w' = w\<lparr>disk := Doc state\<rparr>"
  by (auto simp: save_state_def split: if_splits)

lemma py_setitem_getitem:
  "py_setitem state k v = Inr state1 \<Longrightarrow> py_getitem state1 k = Inr v"
  by (cases state) (auto simp: map_of_dict_set)

lemma cmd_add_expense_steps:
  assumes "cmd_add_expense env state w = Returned state1 w1"
  shows "\<exists>amount wa cat_line wb exp_date wc comment_line wd old new u we b budget items balance.
      parse_float env AskAmount w = Returned amount wa
    \<and> py_input AskCategory wa = Returned cat_line wb
    \<and> parse_date env AskDate wb = Returned exp_date wc
    \<and> py_input AskComment wc = Returned comment_line wd
    \<and> py_getitem state (ustr ''expenses'') = Inr old
    \<and> py_append old
          (PDict [(ustr ''amount'', PFloat amount),
                  (ustr ''category'', PStr (normalize_category cat_line)),
                  (ustr ''date'', PStr exp_date),
                  (ustr ''comment'', PStr (py_strip comment_line))]) = Inr new
    \<and> py_setitem state (ustr ''expenses'') new = Inr state1
    \<and> save_state state1 wd = Returned u we
    \<and> py_get state1 (ustr ''budget'') (PFloat (Fl 0 0)) = Inr b
    \<and> py_float env b = Inr budget
    \<and> py_iter new = Inr items
    \<and> calculate_balance env budget items = Inr balance
    \<and> w1 = (emit ExpenseAdded we)
               \<lparr>stdout := stdout (emit ExpenseAdded we) @ budget_notice budget balance\<rparr>"
  using assms unfolding cmd_add_expense_def
  apply (elim bindE)
  apply (simp only: lift_Returned io.inject)
  apply (elim conjE)
  apply hypsubst
  apply (intro exI conjI)
  apply (assumption | rule refl)+
  done

text \<open>
  C8. Whenever \<open>cmd_add_expense\<close> returns, it has read an amount, a category, a date and a
  comment, the state it leaves is the state it was given with the record of these four
  appended to its expenses, and \<open>save_state\<close> has written that state to the file. What it
  printed after the prompts is the confirmation and then the budget notice, worked out from
  the new state: with \<open>budget\<close> the float of the \<open>budget\<close> entry (\<open>0.0\<close> when there is
  none) and \<open>spent\<close> the total of the old expenses and the new one, a warning carrying
  \<open>|budget - spent|\<close> when the budget is positive and \<open>budget - spent\<close> is negative, that
  is, the new running total exceeds the budget; the remaining \<open>budget - spent\<close> when the
  budget is positive and not exceeded; nothing when the budget is not positive. Amounts are
  printed with two decimals.
\<close>

theorem add_expense_budget_notice:
  assumes "cmd_add_expense env state w = Returned state1 w1"
  shows "\<exists>amount wa cat_line wb exp_date wc comment_line wd old we b budget spent.
      parse_float env AskAmount w = Returned amount wa
    \<and> py_input AskCategory wa = Returned cat_line wb
    \<and> parse_date env AskDate wb = Returned exp_date wc
    \<and> py_input AskComment wc = Returned comment_line wd
    \<and> py_getitem state (ustr ''expenses'') = Inr (PList old)
    \<and> py_setitem state (ustr ''expenses'')
          (PList (old @ [expense_record amount cat_line exp_date comment_line])) = Inr state1
    \<and> save_state state1 wd = Returned () we
    \<and> disk w1 = disk we
    \<and> stdin w1 = stdin wd
    \<and> py_get state1 (ustr ''budget'') (PFloat (Fl 0 0)) = Inr b
    \<and> py_float env b = Inr budget
    \<and> total_expenses env (old @ [expense_record amount cat_line exp_date comment_line])
          = Inr spent
    \<and> stdout w1 = stdout wd @ [ExpenseAdded] @
          (if fpos_sign budget \<and> fneg_sign (fsub budget (num_float spent))
           then [OverBudgetWarning (fmt2 (fabs (fsub budget (num_float spent))))]
           else if fpos_sign budget
           then [RemainingBudget (fmt2 (fsub budget (num_float spent)))]
           else [])"
proof -
  from cmd_add_expense_steps [OF assms] obtain amount wa cat_line wb exp_date wc comment_line
      wd old new u we b budget items balance
    where s1: "parse_float env AskAmount w = Returned amount wa"
      and s2: "py_input AskCategory wa = Returned cat_line wb"
      and s3: "parse_date env AskDate wb = Returned exp_date wc"
      and s4: "py_input AskComment wc = Returned comment_line wd"
      and old: "py_getitem state (ustr ''expenses'') = Inr old"
      and new: "py_append old (expense_record amount cat_line exp_date comment_line) = Inr new"
      and set: "py_setitem state (ustr ''expenses'') new = Inr state1"
      and save: "save_state state1 wd = Returned u we"
      and b: "py_get state1 (ustr ''budget'') (PFloat (Fl 0 0)) = Inr b"
      and budget: "py_float env b = Inr budget"
      and items: "py_iter new = Inr items"
      and balance: "calculate_balance env budget items = Inr balance"
      and w1: "w1 = (emit ExpenseAdded we)
                 \<lparr>stdout := stdout (emit ExpenseAdded we) @ budget_notice budget balance\<rparr>"
    unfolding expense_record_def by blast
  let ?e = "expense_record amount cat_line exp_date comment_line"
  from new obtain xs where o: "old = PList xs" and n: "new = PList (xs @ [?e])"
    by (cases old) auto
  from items n have it: "items = xs @ [?e]" by simp
  from balance obtain spent where spent: "total_expenses env items = Inr spent"
    and bal: "balance = fsub budget (num_float spent)"
    by (auto simp: calculate_balance_def split: sum.splits)
  from save have we: "we = wd\<lparr>disk := Doc state1\<rparr>" by (rule save_state_Returned)
  have 1: "disk w1 = disk we" "stdin w1 = stdin wd" by (simp_all add: w1 we emit_def)
  have 3: "stdout w1 = stdout wd @ [ExpenseAdded] @ budget_notice budget balance"
    by (simp add: w1 we emit_def)
  have u: "u = ()" by simp
  show ?thesis
    using s1 s2 s3 s4 old [unfolded o] set [unfolded n] save [unfolded u] 1 b budget
      spent [unfolded it] 3 [unfolded bal budget_notice_def]
    by blast
qed

text \<open>
  The theorem at the scenario of the specification: the budget is 50.00, there is no
  expense yet, and the user enters an expense of 80; the new total is 80.0 and the warning
  reports 30.00.
\<close>

lemmas parse_eval = float_of_str_def to_ascii_def c_strip_def c_isspace_def is_digit_def
  parse_number_def lower_cp_def exponent_of_def decimal_float_def digits_val_def replace_comma_def

lemmas io_eval = bind_def lift_def py_input_def emit_def parse_float.simps parse_date.simps
  save_state_def str_encodable_def

lemmas fmt_eval = fmt2_def dec_digits.simps digit_char_def

lemma add_expense_run:
  "cmd_add_expense plain_interp
     (PDict [(ustr ''budget'', PFloat (Fl 25 1)), (ustr ''expenses'', PList [])])
     \<lparr>stdin = [ustr ''80'', ustr ''Food'', ustr ''2026-01-10'', []], stdout = [],
      disk = Missing, writable = True\<rparr>
   = Returned
       (PDict [(ustr ''budget'', PFloat (Fl 25 1)),
               (ustr ''expenses'',
                PList [PDict [(ustr ''amount'', PFloat (Fl 5 4)),
                              (ustr ''category'', PStr (ustr ''Food'')),
                              (ustr ''date'', PStr (ustr ''2026-01-10'')),
                              (ustr ''comment'', PStr [])]])])
       \<lparr>stdin = [],
        stdout = [Prompt AskAmount, Prompt AskCategory, Prompt AskDate, Prompt AskComment,
                  ExpenseAdded, OverBudgetWarning ''30.00''],
        disk = Doc
          (PDict [(ustr ''budget'', PFloat (Fl 25 1)),
                  (ustr ''expenses'',
                   PList [PDict [(ustr ''amount'', PFloat (Fl 5 4)),
                                 (ustr ''category'', PStr (ustr ''Food'')),
                                 (ustr ''date'', PStr (ustr ''2026-01-10'')),
                                 (ustr ''comment'', PStr [])]])]),
        writable = True\<rparr>"
  by (simp add: cmd_add_expense_def io_eval parse_eval date_eval text_eval float_eval fmt_eval
      isoformat_def normalize_category_def calculate_balance_def total_expenses_def
      amount_of_def py_float_def budget_notice_def fsub_def)


theorem add_expense_budget_notice_witness:
  "cmd_add_expense plain_interp
     (PDict [(ustr ''budget'', PFloat (Fl 25 1)), (ustr ''expenses'', PList [])])
     \<lparr>stdin = [ustr ''80'', ustr ''Food'', ustr ''2026-01-10'', []], stdout = [],
     disk = Missing, writable = True\<rparr>
   = Returned
     (PDict [(ustr ''budget'', PFloat (Fl 25 1)), (ustr ''expenses'',
     PList [PDict [(ustr ''amount'', PFloat (Fl 5 4)), (ustr ''category'',
     PStr (ustr ''Food'')), (ustr ''date'', PStr (ustr ''2026-01-10'')),
     (ustr ''comment'', PStr [])]])])
     \<lparr>stdin = [], stdout = [Prompt AskAmount, Prompt AskCategory, Prompt AskDate,
     Prompt AskComment, ExpenseAdded, OverBudgetWarning ''30.00''],
     disk = Doc (PDict [(ustr ''budget'', PFloat (Fl 25 1)), (ustr ''expenses'',
     PList [PDict [(ustr ''amount'', PFloat (Fl 5 4)), (ustr ''category'',
     PStr (ustr ''Food'')), (ustr ''date'', PStr (ustr ''2026-01-10'')),
     (ustr ''comment'', PStr [])]])]), writable = True\<rparr>
   \<and> total_expenses plain_interp
        ([] @ [expense_record (Fl 5 4) (ustr ''Food'') (ustr ''2026-01-10'') []])
       = Inr (PFloat (Fl 5 4))
   \<and> budget_notice (Fl 25 1) (fsub (Fl 25 1) (Fl 5 4)) = [OverBudgetWarning ''30.00'']"
proof -
  let ?s0 = "(PDict [(ustr ''budget'', PFloat (Fl 25 1)), (ustr ''expenses'', PList [])])"
  let ?w0 = "\<lparr>stdin = [ustr ''80'', ustr ''Food'', ustr ''2026-01-10'', []], stdout = [],
    disk = Missing, writable = True\<rparr>"
  let ?s1 = "(PDict [(ustr ''budget'', PFloat (Fl 25 1)), (ustr ''expenses'',
    PList [PDict [(ustr ''amount'', PFloat (Fl 5 4)), (ustr ''category'',
    PStr (ustr ''Food'')), (ustr ''date'', PStr (ustr ''2026-01-10'')),
    (ustr ''comment'', PStr [])]])])"
  let ?w1 = "\<lparr>stdin = [], stdout = [Prompt AskAmount, Prompt AskCategory, Prompt AskDate,
    Prompt AskComment, ExpenseAdded, OverBudgetWarning ''30.00''],
    disk = Doc (PDict [(ustr ''budget'', PFloat (Fl 25 1)), (ustr ''expenses'',
    PList [PDict [(ustr ''amount'', PFloat (Fl 5 4)), (ustr ''category'',
    PStr (ustr ''Food'')), (ustr ''date'', PStr (ustr ''2026-01-10'')),
    (ustr ''comment'', PStr [])]])]), writable = True\<rparr>"
  have run: "cmd_add_expense plain_interp ?s0 ?w0 = Returned ?s1 ?w1"
    by (rule add_expense_run)
  have steps: "\<exists>amount wa cat_line wb exp_date wc comment_line wd old we b budget spent.
      parse_float plain_interp AskAmount ?w0 = Returned amount wa
    \<and> py_input AskCategory wa = Returned cat_line wb
    \<and> parse_date plain_interp AskDate wb = Returned exp_date wc
    \<and> py_input AskComment wc = Returned comment_line wd
    \<and> py_getitem ?s0 (ustr ''expenses'') = Inr (PList old)
    \<and> py_setitem ?s0 (ustr ''expenses'')
          (PList (old @ [expense_record amount cat_line exp_date comment_line])) = Inr ?s1
    \<and> save_state ?s1 wd = Returned () we
    \<and> disk ?w1 = disk we
    \<and> stdin ?w1 = stdin wd
    \<and> py_get ?s1 (ustr ''budget'') (PFloat (Fl 0 0)) = Inr b
    \<and> py_float plain_interp b = Inr budget
    \<and> total_expenses plain_interp (old @ [expense_record amount cat_line exp_date comment_line])
          = Inr spent
    \<and> stdout ?w1 = stdout wd @ [ExpenseAdded] @
          (if fpos_sign budget \<and> fneg_sign (fsub budget (num_float spent))
           then [OverBudgetWarning (fmt2 (fabs (fsub budget (num_float spent))))]
           else if fpos_sign budget
           then [RemainingBudget (fmt2 (fsub budget (num_float spent)))]
           else [])"
    by (rule add_expense_budget_notice [OF run])
  have tot: "total_expenses plain_interp
        ([] @ [expense_record (Fl 5 4) (ustr ''Food'') (ustr ''2026-01-10'') []])
       = Inr (PFloat (Fl 5 4))"
    by (simp add: total_expenses_def amount_of_def py_float_def expense_record_def ustr_def
        float_eval)
  have ntc: "budget_notice (Fl 25 1) (fsub (Fl 25 1) (Fl 5 4)) = [OverBudgetWarning ''30.00'']"
    by (simp add: budget_notice_def fsub_def float_eval fmt_eval)
  from run steps tot ntc show ?thesis
    by blast
qed

section \<open>Dispatching a command\<close>

lemma set_py_strip: "set (py_strip s) \<subseteq> set s"
proof -
  have "set (py_strip s) = set (dropWhile py_isspace (rev (dropWhile py_isspace s)))"
    by (simp add: py_strip_def)
  also have "\<dots> \<subseteq> set (rev (dropWhile py_isspace s))"
    by (rule set_dropWhileD [THEN subsetI]) 
  also have "\<dots> \<subseteq> set s"
    by (auto dest: set_dropWhileD)
  finally show ?thesis .
qed

lemma lower_cp_ascii: "c < 128 \<Longrightarrow> lower_cp c < 128"
  by (simp add: lower_cp_def)

lemma ascii_command:
  assumes "list_all (\<lambda>c. c < 128) command"
  shows "py_lower env (py_strip command) = map lower_cp (py_strip command)"
    and "list_all (\<lambda>c. c < 128) (py_lower env (py_strip command))"
proof -
  from assms set_py_strip [of command] have a: "list_all (\<lambda>c. c < 128) (py_strip command)"
    by (auto simp: list_all_iff)
  then have "list_all basic_cp (py_strip command)"
    by (auto simp: list_all_iff basic_cp_def)
  then show l: "py_lower env (py_strip command) = map lower_cp (py_strip command)"
    by (simp add: py_lower_def)
  from a show "list_all (\<lambda>c. c < 128) (py_lower env (py_strip command))"
    unfolding l by (auto simp: list_all_iff lower_cp_ascii)
qed

lemmas name_defs = name_help_def name_set_budget_def name_add_expense_def
  name_show_expenses_def name_by_date_def name_by_period_def name_by_category_def
  name_balance_def name_report_def name_exit_def

lemma recognize_ascii:
  assumes "list_all (\<lambda>c. c < 128) cmd"
  shows "recognize cmd = CmdHelp \<or> recognize cmd = CmdExit \<or> recognize cmd = CmdUnknown"
proof -
  have "cmd \<noteq> name_help" "cmd \<noteq> name_set_budget" "cmd \<noteq> name_add_expense"
    "cmd \<noteq> name_show_expenses" "cmd \<noteq> name_by_date" "cmd \<noteq> name_by_period"
    "cmd \<noteq> name_by_category" "cmd \<noteq> name_balance" "cmd \<noteq> name_report" "cmd \<noteq> name_exit"
    using assms by (auto simp: name_defs)
  then show ?thesis
    by (simp add: recognize_def)
qed

lemma recognize_names:
  "recognize name_help = CmdHelp \<and> recognize name_set_budget = CmdSetBudget
   \<and> recognize name_add_expense = CmdAddExpense \<and> recognize name_show_expenses = CmdShowExpenses
   \<and> recognize name_by_date = CmdByDate \<and> recognize name_by_period = CmdByPeriod
   \<and> recognize name_by_category = CmdByCategory \<and> recognize name_balance = CmdBalance
   \<and> recognize name_report = CmdReport \<and> recognize name_exit = CmdExit
   \<and> recognize (ustr ''help'') = CmdHelp \<and> recognize (ustr ''?'') = CmdHelp
   \<and> recognize (ustr ''exit'') = CmdExit \<and> recognize (ustr ''quit'') = CmdExit"
  by (simp add: recognize_def name_defs ustr_def)

lemma keep_True:
  "keep state m = Returned (b, state1) w1 \<Longrightarrow> b"
  unfolding keep_def by (erule bindE) simp

lemma changed_True:
  "changed m = Returned (b, state1) w1 \<Longrightarrow> b"
  unfolding changed_def by (erule bindE) simp

lemma handle_command_signal:
  assumes "handle_command env command state w = Returned (b, state1) w1"
  shows "\<not> b \<longleftrightarrow> recognize (py_lower env (py_strip command)) = CmdExit"
  using assms unfolding handle_command_def
  by (cases "recognize (py_lower env (py_strip command))")
    (auto dest: keep_True changed_True)

text \<open>
  C9, as the code has it. The handler chosen depends on the input only through its trimmed,
  lower-cased form, and lower-casing maps each Latin or Cyrillic capital to its small letter.
  Each of the ten commands is recognized under its Ukrainian phrase; \<open>help\<close> is also
  recognized as \<open>help\<close> and \<open>?\<close>, and exit as \<open>exit\<close> and \<open>quit\<close>. The other eight have no
  ASCII synonym: an input of ASCII characters is recognized as help, as exit, or not at
  all. An unrecognized phrase prints the "not recognized" message and returns \<open>True\<close> with
  the state unchanged; and whenever the dispatcher returns, it returns \<open>False\<close> exactly for
  the exit phrases.
\<close>

theorem handle_command_dispatch:
  "(py_lower env (py_strip c1) = py_lower env (py_strip c2) \<longrightarrow>
      handle_command env c1 state w = handle_command env c2 state w)
   \<and> (list_all basic_cp command \<longrightarrow> py_lower env command = map lower_cp command)
   \<and> (recognize name_help = CmdHelp \<and> recognize name_set_budget = CmdSetBudget
      \<and> recognize name_add_expense = CmdAddExpense \<and> recognize name_show_expenses = CmdShowExpenses
      \<and> recognize name_by_date = CmdByDate \<and> recognize name_by_period = CmdByPeriod
      \<and> recognize name_by_category = CmdByCategory \<and> recognize name_balance = CmdBalance
      \<and> recognize name_report = CmdReport \<and> recognize name_exit = CmdExit
      \<and> recognize (ustr ''help'') = CmdHelp \<and> recognize (ustr ''?'') = CmdHelp
      \<and> recognize (ustr ''exit'') = CmdExit \<and> recognize (ustr ''quit'') = CmdExit)
   \<and> (list_all (\<lambda>c. c < 128) command \<longrightarrow>
        recognize (py_lower env (py_strip command)) = CmdHelp
        \<or> recognize (py_lower env (py_strip command)) = CmdExit
        \<or> recognize (py_lower env (py_strip command)) = CmdUnknown)
   \<and> (recognize (py_lower env (py_strip command)) = CmdUnknown \<longrightarrow>
        handle_command env command state w = Returned (True, state) (emit ErrUnknownCommand w))
   \<and> (handle_command env command state w = Returned (b, state1) w1 \<longrightarrow>
        (\<not> b \<longleftrightarrow> recognize (py_lower env (py_strip command)) = CmdExit))"
proof -
  have 1: "py_lower env (py_strip c1) = py_lower env (py_strip c2) \<Longrightarrow>
      handle_command env c1 state w = handle_command env c2 state w"
    by (simp add: handle_command_def)
  have 2: "list_all basic_cp command \<Longrightarrow> py_lower env command = map lower_cp command"
    by (simp add: py_lower_def)
  have 4: "list_all (\<lambda>c. c < 128) command \<Longrightarrow>
        recognize (py_lower env (py_strip command)) = CmdHelp
        \<or> recognize (py_lower env (py_strip command)) = CmdExit
        \<or> recognize (py_lower env (py_strip command)) = CmdUnknown"
    by (rule recognize_ascii) (rule ascii_command)
  have 5: "recognize (py_lower env (py_strip command)) = CmdUnknown \<Longrightarrow>
        handle_command env command state w = Returned (True, state) (emit ErrUnknownCommand w)"
    by (simp add: handle_command_def)
  from 1 2 recognize_names 4 5 handle_command_signal [of env command state w b state1 w1]
  show ?thesis by blast
qed

text \<open>
  The theorem at \<open>HeLP\<close> between blanks, which runs the help command; at \<open>balance\<close>,
  which is not recognized; and at \<open>QUIT\<close>, which ends the session.
\<close>

theorem handle_command_dispatch_witness:
  "handle_command plain_interp (ustr ''  HeLP '') PNone
     \<lparr>stdin = [], stdout = [], disk = Missing, writable = True\<rparr>
   = Returned (True, PNone) \<lparr>stdin = [], stdout = [Help], disk = Missing, writable = True\<rparr>
   \<and> handle_command plain_interp (ustr ''balance'') PNone
     \<lparr>stdin = [], stdout = [], disk = Missing, writable = True\<rparr>
   = Returned (True, PNone)
       (emit ErrUnknownCommand \<lparr>stdin = [], stdout = [], disk = Missing, writable = True\<rparr>)
   \<and> handle_command plain_interp (ustr ''QUIT'') PNone
     \<lparr>stdin = [], stdout = [], disk = Missing, writable = True\<rparr>
   = Returned (False, PNone) \<lparr>stdin = [], stdout = [Goodbye], disk = Missing, writable = True\<rparr>
   \<and> recognize (py_lower plain_interp (py_strip (ustr ''QUIT''))) = CmdExit"
proof -
  let ?w = "\<lparr>stdin = [], stdout = [], disk = Missing, writable = True\<rparr>"
  have low: "py_lower plain_interp (py_strip (ustr ''  HeLP ''))
      = py_lower plain_interp (py_strip (ustr ''help''))"
    by (simp add: py_lower_def basic_cp_def lower_cp_def text_eval)
  have hlp: "handle_command plain_interp (ustr ''help'') PNone ?w
      = Returned (True, PNone) \<lparr>stdin = [], stdout = [Help], disk = Missing, writable = True\<rparr>"
    by (simp add: handle_command_def recognize_def name_defs py_lower_def basic_cp_def
        lower_cp_def text_eval keep_def cmd_help_def bind_def emit_def)
  have unk: "recognize (py_lower plain_interp (py_strip (ustr ''balance''))) = CmdUnknown"
    by (simp add: recognize_def name_defs py_lower_def basic_cp_def lower_cp_def text_eval)
  have quit: "handle_command plain_interp (ustr ''QUIT'') PNone ?w
      = Returned (False, PNone) \<lparr>stdin = [], stdout = [Goodbye], disk = Missing, writable = True\<rparr>"
    by (simp add: handle_command_def recognize_def name_defs py_lower_def basic_cp_def
        lower_cp_def text_eval emit_def)
  note A = handle_command_dispatch
    [of plain_interp "ustr ''  HeLP ''" "ustr ''help''" PNone ?w "ustr ''balance''"]
  note B = handle_command_dispatch
    [of plain_interp "ustr ''  HeLP ''" "ustr ''help''" PNone ?w "ustr ''QUIT''" False PNone
      "\<lparr>stdin = [], stdout = [Goodbye], disk = Missing, writable = True\<rparr>"]
  have 1: "handle_command plain_interp (ustr ''  HeLP '') PNone ?w
      = Returned (True, PNone) \<lparr>stdin = [], stdout = [Help], disk = Missing, writable = True\<rparr>"
    using A low hlp by simp
  have 2: "handle_command plain_interp (ustr ''balance'') PNone ?w
      = Returned (True, PNone) (emit ErrUnknownCommand ?w)"
    using A unk by blast
  have 3: "recognize (py_lower plain_interp (py_strip (ustr ''QUIT''))) = CmdExit"
    using B quit by blast
  from 1 2 quit 3 show ?thesis by blast
qed

text \<open>
  C9 as stated fails: no phrase of ASCII characters is accepted as the balance command (nor
  as any command but help and exit).
\<close>

theorem handle_command_ascii_balance_counterexample:
  "\<not> (\<exists>command. list_all (\<lambda>c. c < 128) command
         \<and> recognize (py_lower plain_interp (py_strip command)) = CmdBalance)"
proof
  assume "\<exists>command. list_all (\<lambda>c. c < 128) command
         \<and> recognize (py_lower plain_interp (py_strip command)) = CmdBalance"
  then obtain command where a: "list_all (\<lambda>c. c < 128) command"
    and r: "recognize (py_lower plain_interp (py_strip command)) = CmdBalance"
    by blast
  from recognize_ascii [OF ascii_command(2) [OF a, of plain_interp]] r show False
    by simp
qed

end
